theory Spec2Isabelle
  imports Complex_Main "HOL-Library.AList" "HOL-Library.Char_ord" "HOL-Library.List_Lexorder"
begin

section \<open>Python values, strings and exceptions\<close>

text \<open>
  A Python \<open>str\<close> is modelled as a \<open>string\<close> whose characters are the code points below
  256. Values that travel through the scrapers (decoded JSON, the dictionaries built by the
  XML and CSV readers, the fields of a \<open>School\<close>) are dynamically typed in the source and are
  modelled by \<open>pyval\<close>; a \<open>dict\<close> with string keys is an association list in insertion order.
\<close>

datatype pyval =
    PNone
  | PBool bool
  | PInt int
  | PFloat real
  | PStr string
  | PList "pyval list"
  | PDict "(string \<times> pyval) list"

text \<open>
  A parsed HTML page, as BeautifulSoup holds it: an element with its tag name, attributes
  and children, or a string of text.
\<close>

datatype html = Element string "(string \<times> string) list" "html list" | Text string

text \<open>
  Exceptions are values. Only instances of \<open>Exception\<close> are modelled (the classes the
  scrapers and their libraries raise); \<open>exn_msg\<close> is what \<open>str(e)\<close> returns.
\<close>

datatype exn_class =
    RequestException | HTTPError | ConnectionError | Timeout | JSONDecodeError
  | ValueError | TypeError | AttributeError | KeyError | IndexError
  | ExpatError | CRSError | OtherException

datatype exn = Exn (exn_cls: exn_class) (exn_msg: string)

text \<open>\<open>isinstance(e, requests.RequestException)\<close>.\<close>

definition is_RequestException :: "exn \<Rightarrow> bool" where
  "is_RequestException e =
     (exn_cls e \<in> {RequestException, HTTPError, ConnectionError, Timeout, JSONDecodeError})"

subsection \<open>String methods\<close>

text \<open>\<open>str.isspace\<close> on one character (code points below 256).\<close>

definition is_space :: "char \<Rightarrow> bool" where
  "is_space c =
     (let n = (of_char c :: nat)
      in (9 \<le> n \<and> n \<le> 13) \<or> (28 \<le> n \<and> n \<le> 32) \<or> n = 133 \<or> n = 160)"

text \<open>\<open>str.lower\<close> on one character: A-Z and the Latin-1 capitals move up by 32.\<close>

definition lower_char :: "char \<Rightarrow> char" where
  "lower_char c =
     (let n = (of_char c :: nat)
      in if (65 \<le> n \<and> n \<le> 90) \<or> (192 \<le> n \<and> n \<le> 222 \<and> n \<noteq> 215)
         then char_of (n + 32) else c)"

definition lower :: "string \<Rightarrow> string" where
  "lower s = map lower_char s"

definition lstrip :: "string \<Rightarrow> string" where
  "lstrip s = dropWhile is_space s"

definition rstrip :: "string \<Rightarrow> string" where
  "rstrip s = rev (dropWhile is_space (rev s))"

text \<open>\<open>str.strip()\<close> without arguments.\<close>

definition strip :: "string \<Rightarrow> string" where
  "strip s = rstrip (lstrip s)"

text \<open>\<open>sep.join(items)\<close>.\<close>

fun join :: "string \<Rightarrow> string list \<Rightarrow> string" where
  "join sep [] = []"
| "join sep [x] = x"
| "join sep (x # y # ys) = x @ sep @ join sep (y # ys)"

section \<open>Python operations on values\<close>

text \<open>Sequencing of computations that may raise.\<close>

definition and_then :: "exn + 'a \<Rightarrow> ('a \<Rightarrow> exn + 'b) \<Rightarrow> exn + 'b" where
  "and_then m f = (case m of Inl e \<Rightarrow> Inl e | Inr x \<Rightarrow> f x)"

text \<open>
  A loop or comprehension that builds one result per item and stops at the first
  exception.
\<close>

fun for_each :: "('a \<Rightarrow> exn + 'b) \<Rightarrow> 'a list \<Rightarrow> exn + 'b list" where
  "for_each f [] = Inr []"
| "for_each f (x # xs) =
     and_then (f x) (\<lambda>y. and_then (for_each f xs) (\<lambda>ys. Inr (y # ys)))"

fun type_name :: "pyval \<Rightarrow> string" where
  "type_name PNone = ''NoneType''"
| "type_name (PBool b) = ''bool''"
| "type_name (PInt i) = ''int''"
| "type_name (PFloat r) = ''float''"
| "type_name (PStr s) = ''str''"
| "type_name (PList xs) = ''list''"
| "type_name (PDict kvs) = ''dict''"

definition no_attribute :: "pyval \<Rightarrow> string \<Rightarrow> exn" where
  "no_attribute v a =
     Exn AttributeError
       ([CHR 0x27] @ type_name v @ [CHR 0x27] @ '' object has no attribute ''
          @ [CHR 0x27] @ a @ [CHR 0x27])"

text \<open>\<open>bool(v)\<close>: the truth value used by \<open>if\<close>, \<open>or\<close> and \<open>not\<close>.\<close>

fun truthy :: "pyval \<Rightarrow> bool" where
  "truthy PNone = False"
| "truthy (PBool b) = b"
| "truthy (PInt i) = (i \<noteq> 0)"
| "truthy (PFloat r) = (r \<noteq> 0)"
| "truthy (PStr s) = (s \<noteq> [])"
| "truthy (PList xs) = (xs \<noteq> [])"
| "truthy (PDict kvs) = (kvs \<noteq> [])"

text \<open>\<open>a or b\<close>.\<close>

definition py_or :: "pyval \<Rightarrow> pyval \<Rightarrow> pyval" where
  "py_or a b = (if truthy a then a else b)"

text \<open>
  \<open>v.get\<close>: only a dict has the method. \<open>as_dict v\<close> is the dict on which the \<open>get\<close> calls
  of an expression then work, \<open>dget d k dflt\<close> is \<open>d.get(k, dflt)\<close>.
\<close>

definition as_dict :: "pyval \<Rightarrow> exn + (string \<times> pyval) list" where
  "as_dict v = (case v of PDict kvs \<Rightarrow> Inr kvs | _ \<Rightarrow> Inl (no_attribute v ''get''))"

definition dget :: "(string \<times> pyval) list \<Rightarrow> string \<Rightarrow> pyval \<Rightarrow> pyval" where
  "dget d k dflt = (case map_of d k of Some v \<Rightarrow> v | None \<Rightarrow> dflt)"

text \<open>\<open>v.get(k, dflt)\<close>.\<close>

definition py_get :: "pyval \<Rightarrow> string \<Rightarrow> pyval \<Rightarrow> exn + pyval" where
  "py_get v k dflt = and_then (as_dict v) (\<lambda>d. Inr (dget d k dflt))"

text \<open>Decimal digits of a natural number and \<open>str\<close> of an integer.\<close>

fun digits :: "nat \<Rightarrow> string" where
  "digits n =
     (if n < 10 then [char_of (48 + n)]
      else digits (n div 10) @ [char_of (48 + n mod 10)])"

definition str_int :: "int \<Rightarrow> string" where
  "str_int i = (if i < 0 then ''-'' @ digits (nat (- i)) else digits (nat i))"

text \<open>\<open>v[k]\<close> for a string \<open>k\<close>.\<close>

definition py_getitem :: "pyval \<Rightarrow> string \<Rightarrow> exn + pyval" where
  "py_getitem v k =
     (case v of
        PDict kvs \<Rightarrow>
          (case map_of kvs k of
             Some x \<Rightarrow> Inr x
           | None \<Rightarrow> Inl (Exn KeyError ([CHR 0x27] @ k @ [CHR 0x27])))
      | PStr s \<Rightarrow> Inl (Exn TypeError ''string indices must be integers'')
      | PList xs \<Rightarrow> Inl (Exn TypeError ''list indices must be integers or slices, not str'')
      | _ \<Rightarrow> Inl (Exn TypeError
                 ([CHR 0x27] @ type_name v @ [CHR 0x27] @ '' object is not subscriptable'')))"

text \<open>\<open>v[i]\<close> for a literal index \<open>i \<ge> 0\<close>.\<close>

definition py_item :: "pyval \<Rightarrow> nat \<Rightarrow> exn + pyval" where
  "py_item v i =
     (case v of
        PList xs \<Rightarrow>
          (if i < length xs then Inr (xs ! i)
           else Inl (Exn IndexError ''list index out of range''))
      | PStr s \<Rightarrow>
          (if i < length s then Inr (PStr [s ! i])
           else Inl (Exn IndexError ''string index out of range''))
      | PDict kvs \<Rightarrow> Inl (Exn KeyError (digits i))
      | _ \<Rightarrow> Inl (Exn TypeError
                 ([CHR 0x27] @ type_name v @ [CHR 0x27] @ '' object is not subscriptable'')))"

text \<open>\<open>v[k] = x\<close> for a string \<open>k\<close>.\<close>

definition py_setitem :: "pyval \<Rightarrow> string \<Rightarrow> pyval \<Rightarrow> exn + pyval" where
  "py_setitem v k x =
     (case v of
        PDict kvs \<Rightarrow> Inr (PDict (AList.update k x kvs))
      | PList xs \<Rightarrow> Inl (Exn TypeError ''list indices must be integers or slices, not str'')
      | _ \<Rightarrow> Inl (Exn TypeError
                 ([CHR 0x27] @ type_name v @ [CHR 0x27]
                    @ '' object does not support item assignment'')))"

text \<open>\<open>len(v)\<close>.\<close>

definition py_len :: "pyval \<Rightarrow> exn + nat" where
  "py_len v =
     (case v of
        PStr s \<Rightarrow> Inr (length s)
      | PList xs \<Rightarrow> Inr (length xs)
      | PDict kvs \<Rightarrow> Inr (length kvs)
      | _ \<Rightarrow> Inl (Exn TypeError
                 (''object of type '' @ [CHR 0x27] @ type_name v @ [CHR 0x27]
                    @ '' has no len()'')))"

text \<open>The items a \<open>for\<close> loop over \<open>v\<close> visits.\<close>

definition py_iter :: "pyval \<Rightarrow> exn + pyval list" where
  "py_iter v =
     (case v of
        PList xs \<Rightarrow> Inr xs
      | PStr s \<Rightarrow> Inr (map (\<lambda>c. PStr [c]) s)
      | PDict kvs \<Rightarrow> Inr (map (\<lambda>kv. PStr (fst kv)) kvs)
      | _ \<Rightarrow> Inl (Exn TypeError
                 ([CHR 0x27] @ type_name v @ [CHR 0x27] @ '' object is not iterable'')))"

text \<open>\<open>v.strip()\<close>: only a string has the method.\<close>

definition py_strip :: "pyval \<Rightarrow> exn + pyval" where
  "py_strip v = (case v of PStr s \<Rightarrow> Inr (PStr (strip s)) | _ \<Rightarrow> Inl (no_attribute v ''strip''))"

text \<open>
  The functions of the Python library the scrapers call and this development does not
  define: they are parameters of every scraper.
  \<^item> \<open>str_other\<close>: \<open>str(v)\<close> for a float, a list or a dict;
  \<^item> \<open>float_of_str\<close>, \<open>int_of_str\<close>: \<open>float(s)\<close> and \<open>int(s)\<close> for a string, \<open>None\<close> when
    they raise \<open>ValueError\<close>;
  \<^item> \<open>xmltodict_parse\<close>: \<open>xmltodict.parse\<close>;
  \<^item> \<open>splitlines\<close>: \<open>str.splitlines\<close>;
  \<^item> \<open>csv_DictReader\<close>, \<open>csv_reader\<close>: the rows \<open>csv.DictReader(lines, delimiter)\<close> and
    \<open>csv.reader(lines, delimiter)\<close> yield, a row of the first being a dict, or the
    \<open>csv.Error\<close> they raise;
  \<^item> \<open>from_crs\<close>, \<open>transform\<close>: \<open>pyproj.Transformer.from_crs(crs, "EPSG:4326",
    always_xy=True)\<close>, which may raise, and its \<open>transform(x, y)\<close>;
  \<^item> \<open>decode_utf8\<close>: \<open>bytes.decode("utf-8")\<close>;
  \<^item> \<open>unquote\<close>, \<open>urljoin\<close>: \<open>urllib.parse.unquote\<close> and \<open>urllib.parse.urljoin\<close>;
  \<^item> \<open>url_query\<close>: \<open>parse_qs(urlparse(url).query)\<close>;
  \<^item> \<open>html_parse\<close>, \<open>css_select\<close>: \<open>BeautifulSoup(text, "html.parser")\<close> and
    \<open>soup.select(css)\<close>;
  \<^item> \<open>re_findall\<close>, \<open>re_split\<close>, \<open>re_search\<close>: \<open>re.findall(pattern, s)\<close>,
    \<open>re.split(pattern, s)\<close> and the groups of \<open>re.search(pattern, s)\<close>, \<open>None\<close> when
    there is no match;
  \<^item> \<open>set_iter\<close>: the order in which a \<open>set\<close> to which these strings were added is
    iterated.
\<close>

record pylib =
  str_other :: "pyval \<Rightarrow> string"
  float_of_str :: "string \<Rightarrow> real option"
  int_of_str :: "string \<Rightarrow> int option"
  xmltodict_parse :: "string \<Rightarrow> exn + pyval"
  splitlines :: "string \<Rightarrow> string list"
  csv_DictReader :: "string list \<Rightarrow> char \<Rightarrow> exn + pyval list"
  csv_reader :: "string list \<Rightarrow> char \<Rightarrow> exn + string list list"
  from_crs :: "pyval \<Rightarrow> exn option"
  transform :: "pyval \<Rightarrow> pyval \<Rightarrow> pyval \<Rightarrow> exn + (pyval \<times> pyval)"
  decode_utf8 :: "string \<Rightarrow> exn + string"
  unquote :: "string \<Rightarrow> string"
  urljoin :: "string \<Rightarrow> string \<Rightarrow> string"
  url_query :: "string \<Rightarrow> (string \<times> string list) list"
  html_parse :: "string \<Rightarrow> html"
  css_select :: "string \<Rightarrow> html \<Rightarrow> html list"
  re_findall :: "string \<Rightarrow> string \<Rightarrow> string list"
  re_split :: "string \<Rightarrow> string \<Rightarrow> string list"
  re_search :: "string \<Rightarrow> string \<Rightarrow> string list option"
  set_iter :: "string list \<Rightarrow> string list"

text \<open>\<open>str(v)\<close>, which is also how an f-string formats \<open>{v}\<close>.\<close>

definition py_str :: "pylib \<Rightarrow> pyval \<Rightarrow> string" where
  "py_str L v =
     (case v of
        PNone \<Rightarrow> ''None''
      | PBool b \<Rightarrow> (if b then ''True'' else ''False'')
      | PInt i \<Rightarrow> str_int i
      | PStr s \<Rightarrow> s
      | _ \<Rightarrow> str_other L v)"

section \<open>schema.py\<close>

text \<open>The fields \<open>id\<close> and \<open>zip\<close> of the source are \<open>school_id\<close> and \<open>school_zip\<close>.\<close>

record school =
  school_id :: pyval
  name :: pyval
  address :: pyval
  address2 :: pyval
  school_zip :: pyval
  city :: pyval
  website :: pyval
  email :: pyval
  school_type :: pyval
  legal_status :: pyval
  provider :: pyval
  fax :: pyval
  phone :: pyval
  latitude :: pyval
  longitude :: pyval
  director :: pyval

text \<open>\<open>School()\<close>: every field defaults to \<open>None\<close>.\<close>

definition School :: school where
  "School = \<lparr> school_id = PNone, name = PNone, address = PNone, address2 = PNone,
      school_zip = PNone,
      city = PNone, website = PNone, email = PNone, school_type = PNone,
      legal_status = PNone, provider = PNone, fax = PNone, phone = PNone,
      latitude = PNone, longitude = PNone, director = PNone \<rparr>"

section \<open>runner.py\<close>

text \<open>
  The lines the runner and the transport layer print, without the elapsed times.
\<close>

datatype event =
    Warning_unknown string
  | Scraping string
  | Scraped string nat
  | Failed string string
  | Total nat int
  | Errors_in nat "string list"
  | Retry nat string string

text \<open>
  A scraper is called with no arguments, talks to the network and returns a list of
  schools or raises: a function of the world \<open>'w\<close> it runs in. The registry \<open>SCRAPERS\<close> is a
  dict from state key to scraper, here an association list in the order of the source;
  \<open>scrape_state\<close> and \<open>scrape_all\<close> take it as their first argument \<open>scrapers\<close>.
\<close>

type_synonym 'w scraper = "'w \<Rightarrow> (exn + school list) \<times> 'w"

type_synonym 'w registry = "(string \<times> 'w scraper) list"

definition scrape_state :: "'w registry \<Rightarrow> string \<Rightarrow> 'w \<Rightarrow> (exn + school list) \<times> 'w" where
  "scrape_state scrapers state w =
     (let key = strip (lower state)
      in case map_of scrapers key of
           None \<Rightarrow>
             (let available = join '', '' (sort (map fst scrapers))
              in (Inl (Exn ValueError
                    (''Unknown state '' @ [CHR 0x27] @ state @ [CHR 0x27]
                       @ ''. Available: '' @ available)), w))
         | Some scraper \<Rightarrow> scraper w)"

text \<open>The local variables of \<open>scrape_all\<close>, the printed lines and the world.\<close>

record 'w run =
  all_schools :: "school list"
  errors :: "(string \<times> string) list"
  out :: "event list"
  world :: 'w

text \<open>
  The \<open>for state in targets\<close> loop. The first component is the exception that left the
  loop, if any.
\<close>

fun scrape_loop ::
  "'w registry \<Rightarrow> string \<Rightarrow> string list \<Rightarrow> 'w run \<Rightarrow> exn option \<times> 'w run" where
  "scrape_loop scrapers on_error [] st = (None, st)"
| "scrape_loop scrapers on_error (state # targets) st =
     (let key = strip (lower state)
      in case map_of scrapers key of
           None \<Rightarrow>
             scrape_loop scrapers on_error targets
               (st\<lparr>out := out st @ [Warning_unknown state]\<rparr>)
         | Some scraper \<Rightarrow>
             (case scraper (world st) of
                (Inr schools, w') \<Rightarrow>
                  scrape_loop scrapers on_error targets
                    (st\<lparr>all_schools := all_schools st @ schools,
                        out := out st @ [Scraping key, Scraped key (length schools)],
                        world := w'\<rparr>)
              | (Inl e, w') \<Rightarrow>
                  (let st' = st\<lparr>errors := AList.update key (exn_msg e) (errors st),
                                 out := out st @ [Scraping key, Failed key (exn_msg e)],
                                 world := w'\<rparr>
                   in if on_error = ''raise'' then (Some e, st')
                      else scrape_loop scrapers on_error targets st')))"

definition scrape_all ::
  "'w registry \<Rightarrow> string list option \<Rightarrow> string \<Rightarrow> 'w \<Rightarrow> (exn + school list) \<times> 'w run" where
  "scrape_all scrapers states on_error w =
     (let targets = (case states of
                       None \<Rightarrow> map fst scrapers
                     | Some [] \<Rightarrow> map fst scrapers
                     | Some ts \<Rightarrow> ts)
      in case scrape_loop scrapers on_error targets
                \<lparr>all_schools = [], errors = [], out = [], world = w\<rparr> of
           (Some e, st) \<Rightarrow> (Inl e, st)
         | (None, st) \<Rightarrow>
             (Inr (all_schools st),
              st\<lparr>out := out st
                   @ [Total (length (all_schools st))
                        (int (length targets) - int (length (errors st)))]
                   @ (if errors st \<noteq> [] then
                        [Errors_in (length (errors st)) (map fst (errors st))]
                      else [])\<rparr>))"

text \<open>
  What the calls of a batch were and how each ended, in request order: the key of every
  region that was looked up successfully, with the outcome of its scraper. This is the
  reference the orchestrator is compared with; it knows no error policy.
\<close>

fun attempts :: "'w registry \<Rightarrow> string list \<Rightarrow> 'w \<Rightarrow> (string \<times> (exn + school list)) list" where
  "attempts scrapers [] w = []"
| "attempts scrapers (state # targets) w =
     (case map_of scrapers (strip (lower state)) of
        None \<Rightarrow> attempts scrapers targets w
      | Some scraper \<Rightarrow>
          (case scraper w of
             (r, w') \<Rightarrow> (strip (lower state), r) # attempts scrapers targets w'))"

text \<open>The records of the calls that returned, and the keys of the calls that raised.\<close>

fun gathered :: "(string \<times> (exn + school list)) list \<Rightarrow> school list" where
  "gathered [] = []"
| "gathered ((k, Inr schools) # as) = schools @ gathered as"
| "gathered ((k, Inl e) # as) = gathered as"

fun failures :: "(string \<times> (exn + school list)) list \<Rightarrow> (string \<times> exn) list" where
  "failures [] = []"
| "failures ((k, Inr schools) # as) = failures as"
| "failures ((k, Inl e) # as) = (k, e) # failures as"

text \<open>\<open>states or list(SCRAPERS.keys())\<close>: the keys a batch works through.\<close>

definition requested :: "'w registry \<Rightarrow> string list option \<Rightarrow> string list" where
  "requested scrapers states =
     (case states of
        None \<Rightarrow> map fst scrapers
      | Some ts \<Rightarrow> if ts = [] then map fst scrapers else ts)"

text \<open>The world after the scrapers of a list of keys have run, one after the other.\<close>

fun world_after :: "'w registry \<Rightarrow> string list \<Rightarrow> 'w \<Rightarrow> 'w" where
  "world_after scrapers [] w = w"
| "world_after scrapers (state # targets) w =
     (case map_of scrapers (strip (lower state)) of
        None \<Rightarrow> world_after scrapers targets w
      | Some scraper \<Rightarrow> world_after scrapers targets (snd (scraper w)))"

text \<open>
  The failure report a list of failures leaves in a dict: \<open>errors[key] = str(e)\<close> for each,
  in order, so that a key that failed twice keeps its later message.
\<close>

definition report :: "(string \<times> exn) list \<Rightarrow> (string \<times> string) list \<Rightarrow> (string \<times> string) list" where
  "report fs al = foldl (\<lambda>al (k, e). AList.update k (exn_msg e) al) al fs"

text \<open>The sixteen state keys, in the order of the registry.\<close>

definition state_keys :: "string list" where
  "state_keys =
     [''baden-wuerttemberg'', ''bayern'', ''berlin'', ''brandenburg'', ''bremen'',
      ''hamburg'', ''hessen'', ''mecklenburg-vorpommern'', ''niedersachsen'',
      ''nordrhein-westfalen'', ''rheinland-pfalz'', ''saarland'', ''sachsen'',
      ''sachsen-anhalt'', ''schleswig-holstein'', ''thueringen'']"

section \<open>utils.py: the transport layer\<close>

record response =
  status_code :: nat
  status_error :: string
  resp_text :: string
  resp_content :: string
  resp_json :: "exn + pyval"
  set_cookie :: "string option"

text \<open>
  \<open>response.raise_for_status()\<close> raises \<open>HTTPError\<close> for the status codes 400 to 599.
\<close>

definition raise_for_status :: "response \<Rightarrow> exn option" where
  "raise_for_status r =
     (if 400 \<le> status_code r \<and> status_code r < 600
      then Some (Exn HTTPError (status_error r)) else None)"

definition DEFAULT_TIMEOUT :: nat where "DEFAULT_TIMEOUT = 30"

definition MAX_RETRIES :: nat where "MAX_RETRIES = 3"

text \<open>
  The network as \<open>fetch\<close> sees it: \<open>requests.get\<close> either returns a response or raises; the
  outcome of the \<open>k\<close>-th request of a run is \<open>tr k url\<close>. The state counts the requests made
  and records every \<open>time.sleep\<close> and every printed line.
\<close>

type_synonym transport = "nat \<Rightarrow> string \<Rightarrow> exn + response"

record net =
  calls :: nat
  slept :: "nat list"
  printed :: "event list"

text \<open>
  The body of the \<open>try\<close>: the request, then \<open>raise_for_status\<close>. \<open>request_outcome tr url k\<close>
  is how the \<open>k\<close>-th request ends: with the response, or with the exception raised by
  \<open>requests.get\<close> or by \<open>raise_for_status\<close>.
\<close>

definition request_outcome :: "transport \<Rightarrow> string \<Rightarrow> nat \<Rightarrow> exn + response" where
  "request_outcome tr url k =
     (case tr k url of
        Inl e \<Rightarrow> Inl e
      | Inr r \<Rightarrow> (case raise_for_status r of Some e \<Rightarrow> Inl e | None \<Rightarrow> Inr r))"

definition try_get :: "transport \<Rightarrow> string \<Rightarrow> net \<Rightarrow> (exn + response) \<times> net" where
  "try_get tr url st = (request_outcome tr url (calls st), st\<lparr>calls := calls st + 1\<rparr>)"

text \<open>
  \<open>for attempt in range(MAX_RETRIES)\<close>. A loop that runs out returns \<open>None\<close>.
\<close>

fun fetch_loop ::
  "transport \<Rightarrow> string \<Rightarrow> nat list \<Rightarrow> net \<Rightarrow> (exn + response option) \<times> net" where
  "fetch_loop tr url [] st = (Inr None, st)"
| "fetch_loop tr url (attempt # later) st =
     (case try_get tr url st of
        (Inr r, st') \<Rightarrow> (Inr (Some r), st')
      | (Inl e, st') \<Rightarrow>
          if is_RequestException e then
            (if attempt < MAX_RETRIES - 1 then
               (let wait = 2 ^ (attempt + 1)
                in fetch_loop tr url later
                     (st'\<lparr>slept := slept st' @ [wait],
                          printed := printed st'
                            @ [Retry (attempt + 1) (take 80 url) (exn_msg e)]\<rparr>))
             else (Inl e, st'))
          else (Inl e, st'))"

definition fetch :: "transport \<Rightarrow> string \<Rightarrow> net \<Rightarrow> (exn + response option) \<times> net" where
  "fetch tr url st = fetch_loop tr url [0..<MAX_RETRIES] st"

section \<open>The upstream sources\<close>

text \<open>
  What the scrapers see of the network: \<open>web url\<close> is what \<open>fetch(url, ...)\<close> returns or
  raises once the transport layer above is done with its retries.
\<close>

type_synonym web = "string \<Rightarrow> exn + response"

section \<open>utils.py: helpers\<close>

text \<open>\<open>safe_strip\<close>: strip whitespace, \<open>None\<close> if empty.\<close>

definition safe_strip :: "pyval \<Rightarrow> exn + pyval" where
  "safe_strip v =
     (if \<not> truthy v then Inr PNone
      else and_then (py_strip v) (\<lambda>s. if \<not> truthy s then Inr PNone else py_strip v))"

text \<open>One round of the loop of \<open>parse_geojson_features\<close>: the \<open>props\<close> it appends.\<close>

definition geojson_feature :: "pyval \<Rightarrow> exn + pyval" where
  "geojson_feature feature =
     and_then (py_get feature ''properties'' (PDict [])) (\<lambda>props.
     and_then (py_get feature ''geometry'' (PDict [])) (\<lambda>geometry.
     and_then (py_get geometry ''coordinates'' (PList [])) (\<lambda>coords.
     and_then (py_len coords) (\<lambda>n.
       if n \<ge> 2 then
         and_then (py_item coords 0) (\<lambda>c0.
         and_then (py_setitem props ''lon'' c0) (\<lambda>props1.
         and_then (py_item coords 1) (\<lambda>c1.
         py_setitem props1 ''lat'' c1)))
       else Inr props))))"

definition parse_geojson_features :: "pyval \<Rightarrow> exn + pyval list" where
  "parse_geojson_features data =
     and_then (py_get data ''features'' (PList [])) (\<lambda>features.
     and_then (py_iter features) (for_each geojson_feature))"

section \<open>scrapers/geojson.py\<close>

definition berlin_url :: string where
  "berlin_url =
     ''https://gdi.berlin.de/services/wfs/schulen?''
     @ ''SERVICE=WFS&VERSION=1.1.0&REQUEST=GetFeature&srsname=EPSG:4326''
     @ ''&typename=fis:schulen&outputFormat=application/json''"

text \<open>The \<open>School(...)\<close> that \<open>scrape_berlin\<close> builds from one feature \<open>f\<close>.\<close>

definition berlin_school :: "pylib \<Rightarrow> pyval \<Rightarrow> exn + school" where
  "berlin_school L f =
     and_then (as_dict f) (\<lambda>d. Inr (School\<lparr>
       name := dget d ''schulname'' PNone,
       school_id := PStr (''BE-'' @ py_str L (dget d ''bsn'' PNone)),
       address := PStr (strip (py_str L (dget d ''strasse'' (PStr []))
                    @ '' '' @ py_str L (dget d ''hausnr'' (PStr [])))),
       school_zip := dget d ''plz'' PNone,
       city := PStr ''Berlin'',
       website := dget d ''internet'' PNone,
       email := dget d ''email'' PNone,
       school_type := dget d ''schulart'' PNone,
       legal_status := dget d ''traeger'' PNone,
       fax := dget d ''fax'' PNone,
       phone := dget d ''telefon'' PNone,
       latitude := dget d ''lat'' PNone,
       longitude := dget d ''lon'' PNone\<rparr>))"

definition scrape_berlin :: "pylib \<Rightarrow> web \<Rightarrow> exn + school list" where
  "scrape_berlin L web =
     and_then (web berlin_url) (\<lambda>resp.
     and_then (resp_json resp) (\<lambda>data.
     and_then (parse_geojson_features data) (\<lambda>features.
     for_each (berlin_school L) features)))"

definition brandenburg_url :: string where
  "brandenburg_url =
     ''https://schullandschaft.brandenburg.de/edugis/wfs/schulen?''
     @ ''SERVICE=WFS&VERSION=1.1.0&REQUEST=GetFeature''
     @ ''&typename=ms:Schul_Standorte''
     @ ''&srsname=epsg:4326&outputFormat=application/json''"

definition brandenburg_school :: "pylib \<Rightarrow> pyval \<Rightarrow> exn + school" where
  "brandenburg_school L f =
     and_then (as_dict f) (\<lambda>d. Inr (School\<lparr>
       name := dget d ''schulname'' PNone,
       school_id := PStr (''BB-'' @ py_str L (dget d ''schul_nr'' PNone)),
       address := dget d ''strasse_hausnr'' PNone,
       school_zip := dget d ''plz'' PNone,
       city := dget d ''ort'' PNone,
       website := dget d ''homepage'' PNone,
       email := dget d ''dienst_email'' PNone,
       school_type := dget d ''schulform'' PNone,
       fax := dget d ''faxnummer'' PNone,
       phone := dget d ''telefonnummer'' PNone,
       provider := dget d ''schulamtname'' PNone,
       longitude := dget d ''lon'' PNone,
       latitude := dget d ''lat'' PNone\<rparr>))"

definition scrape_brandenburg :: "pylib \<Rightarrow> web \<Rightarrow> exn + school list" where
  "scrape_brandenburg L web =
     and_then (web brandenburg_url) (\<lambda>resp.
     and_then (resp_json resp) (\<lambda>data.
     and_then (parse_geojson_features data) (\<lambda>features.
     for_each (brandenburg_school L) features)))"

definition hamburg_urls :: "string list" where
  "hamburg_urls =
     [''https://api.hamburg.de/datasets/v1/schulen/collections/staatliche_schulen/items?limit=1000'',
      ''https://api.hamburg.de/datasets/v1/schulen/collections/nicht_staatliche_schulen/items?limit=1000'']"

text \<open>\<open>v.split()\<close>: only a string has the method.\<close>

fun split_ws_from :: "string \<Rightarrow> string \<Rightarrow> string list" where
  "split_ws_from cur [] = (if cur = [] then [] else [cur])"
| "split_ws_from cur (c # cs) =
     (if is_space c then
        (if cur = [] then split_ws_from [] cs else cur # split_ws_from [] cs)
      else split_ws_from (cur @ [c]) cs)"

definition split_ws :: "string \<Rightarrow> string list" where
  "split_ws s = split_ws_from [] s"

definition py_split_ws :: "pyval \<Rightarrow> exn + string list" where
  "py_split_ws v =
     (case v of PStr s \<Rightarrow> Inr (split_ws s) | _ \<Rightarrow> Inl (no_attribute v ''split''))"

definition hamburg_school :: "pylib \<Rightarrow> pyval \<Rightarrow> exn + school" where
  "hamburg_school L f =
     and_then (as_dict f) (\<lambda>d.
     and_then (py_split_ws (py_or (dget d ''adresse_ort'' PNone) (PStr []))) (\<lambda>city_parts.
       let zip_code = (if city_parts \<noteq> [] then PStr (hd city_parts) else PNone);
           city_name = (if length city_parts > 1 then PStr (join '' '' (tl city_parts))
                        else PNone)
       in Inr (School\<lparr>
            name := dget d ''schulname'' PNone,
            school_id := PStr (''HH-'' @ py_str L (dget d ''schul_id'' PNone)),
            address := dget d ''adresse_strasse_hausnr'' PNone,
            school_zip := zip_code,
            city := city_name,
            website := dget d ''schul_homepage'' PNone,
            email := dget d ''schul_email'' PNone,
            school_type := dget d ''schulform'' PNone,
            fax := dget d ''fax'' PNone,
            phone := dget d ''schul_telefonnr'' PNone,
            director := dget d ''name_schulleiter'' PNone,
            latitude := dget d ''lat'' PNone,
            longitude := dget d ''lon'' PNone\<rparr>)))"

text \<open>The schools of one of the two Hamburg endpoints.\<close>

definition hamburg_endpoint :: "pylib \<Rightarrow> web \<Rightarrow> string \<Rightarrow> exn + school list" where
  "hamburg_endpoint L web url =
     and_then (web url) (\<lambda>resp.
     and_then (resp_json resp) (\<lambda>data.
     and_then (parse_geojson_features data) (\<lambda>features.
     for_each (hamburg_school L) features)))"

definition scrape_hamburg :: "pylib \<Rightarrow> web \<Rightarrow> exn + school list" where
  "scrape_hamburg L web =
     and_then (for_each (hamburg_endpoint L web) hamburg_urls) (\<lambda>parts. Inr (concat parts))"

definition saarland_url :: string where
  "saarland_url =
     ''https://geoportal.saarland.de/spatial-objects/257''
     @ ''/collections/Staatliche_Dienste:Schulen_SL/items''
     @ ''?f=json&limit=2500''"

definition saarland_school :: "pylib \<Rightarrow> pyval \<Rightarrow> exn + school" where
  "saarland_school L f =
     and_then (as_dict f) (\<lambda>d.
     and_then (py_strip (py_or (dget d (''Stra'' @ [CHR 0xDF] @ ''e'') PNone) (PStr []))) (\<lambda>street.
       Inr (School\<lparr>
         name := dget d ''Bezeichnung'' PNone,
         school_id := PStr (''SL-'' @ py_str L (dget d ''OBJECTID'' PNone)),
         address := street,
         school_zip := dget d ''PLZ'' PNone,
         city := dget d ''Ort'' PNone,
         school_type := dget d ''Schulform'' PNone,
         phone := dget d ''Telefon'' PNone,
         fax := dget d ''Fax'' PNone,
         website := dget d ''Homepage'' PNone,
         latitude := dget d ''lat'' PNone,
         longitude := dget d ''lon'' PNone\<rparr>)))"

definition scrape_saarland :: "pylib \<Rightarrow> web \<Rightarrow> exn + school list" where
  "scrape_saarland L web =
     and_then (web saarland_url) (\<lambda>resp.
     and_then (resp_json resp) (\<lambda>data.
     and_then (parse_geojson_features data) (\<lambda>features.
     for_each (saarland_school L) features)))"

section \<open>scrapers/csv_scrapers.py\<close>

text \<open>\<open>float(v)\<close>.\<close>

definition py_float :: "pylib \<Rightarrow> pyval \<Rightarrow> exn + pyval" where
  "py_float L v =
     (case v of
        PStr s \<Rightarrow>
          (case float_of_str L s of
             Some r \<Rightarrow> Inr (PFloat r)
           | None \<Rightarrow> Inl (Exn ValueError
                        (''could not convert string to float: ''
                           @ [CHR 0x27] @ s @ [CHR 0x27])))
      | PInt i \<Rightarrow> Inr (PFloat (of_int i))
      | PFloat r \<Rightarrow> Inr (PFloat r)
      | PBool b \<Rightarrow> Inr (PFloat (if b then 1 else 0))
      | _ \<Rightarrow> Inl (Exn TypeError
                 (''float() argument must be a string or a real number, not ''
                    @ [CHR 0x27] @ type_name v @ [CHR 0x27])))"

text \<open>\<open>sep.join(items)\<close> for a list of values: every item has to be a string.\<close>

fun the_strs :: "pyval list \<Rightarrow> exn + string list" where
  "the_strs [] = Inr []"
| "the_strs (PStr s # vs) = and_then (the_strs vs) (\<lambda>ss. Inr (s # ss))"
| "the_strs (v # vs) =
     Inl (Exn TypeError
       (''sequence item: expected str instance, '' @ type_name v @ '' found''))"

definition py_join :: "string \<Rightarrow> pyval list \<Rightarrow> exn + string" where
  "py_join sep vs = and_then (the_strs vs) (\<lambda>ss. Inr (join sep ss))"

text \<open>A dict built entry by entry: a later entry with the same key replaces the value.\<close>

definition dict_of :: "('k \<times> 'v) list \<Rightarrow> ('k \<times> 'v) list" where
  "dict_of kvs = foldl (\<lambda>d kv. AList.update (fst kv) (snd kv) d) [] kvs"

definition nrw_rechtsform_url :: string where
  "nrw_rechtsform_url =
     ''https://www.schulministerium.nrw.de/BiPo/OpenData/Schuldaten/key_rechtsform.csv''"

definition nrw_schulform_url :: string where
  "nrw_schulform_url =
     ''https://www.schulministerium.nrw.de/BiPo/OpenData/Schuldaten/key_schulformschluessel.csv''"

definition nrw_traeger_url :: string where
  "nrw_traeger_url =
     ''https://www.schulministerium.nrw.de/BiPo/OpenData/Schuldaten/key_traeger.csv''"

definition nrw_url :: string where
  "nrw_url = ''https://www.schulministerium.nrw.de/BiPo/OpenData/Schuldaten/schuldaten.csv''"

text \<open>\<open>_NRWHelper._get_map\<close>.\<close>

definition NRWHelper_get_map :: "pylib \<Rightarrow> web \<Rightarrow> string \<Rightarrow> exn + (string \<times> string) list" where
  "NRWHelper_get_map L web url =
     and_then (web url) (\<lambda>response.
     and_then (csv_reader L (drop 2 (splitlines L (resp_text response))) (CHR '';'')) (\<lambda>lines.
       Inr (dict_of (map (\<lambda>line. (line ! 0, line ! 1))
                         (filter (\<lambda>line. length line \<ge> 2) lines)))))"

text \<open>\<open>_NRWHelper._get_provider\<close>.\<close>

definition NRWHelper_get_provider :: "pylib \<Rightarrow> web \<Rightarrow> exn + (string \<times> string) list" where
  "NRWHelper_get_provider L web =
     and_then (web nrw_traeger_url) (\<lambda>response.
     and_then (csv_reader L (drop 2 (splitlines L (resp_text response))) (CHR '';'')) (\<lambda>lines.
       Inr (dict_of (map (\<lambda>line. (line ! 0,
                                   strip (join '' '' (map (\<lambda>n. line ! n)
                                                       [1..<min 4 (length line)]))))
                         (filter (\<lambda>line. line \<noteq> []) lines)))))"

text \<open>\<open>_NRWHelper._load_data\<close>, run by \<open>_NRWHelper()\<close>: the three tables.\<close>

definition NRWHelper_load_data ::
  "pylib \<Rightarrow> web \<Rightarrow> exn + (string \<times> (string \<times> string) list) list" where
  "NRWHelper_load_data L web =
     and_then (NRWHelper_get_map L web nrw_rechtsform_url) (\<lambda>rechtsform.
     and_then (NRWHelper_get_map L web nrw_schulform_url) (\<lambda>schulform.
     and_then (NRWHelper_get_provider L web) (\<lambda>prov.
       Inr [(''rechtsform'', rechtsform), (''schulform'', schulform), (''provider'', prov)])))"

text \<open>
  \<open>_NRWHelper.resolve\<close>: \<open>self.mappings.get(data_type, {}).get(key)\<close>. A list or a dict is
  not hashable and cannot be looked up.
\<close>

definition NRWHelper_resolve ::
  "(string \<times> (string \<times> string) list) list \<Rightarrow> string \<Rightarrow> pyval \<Rightarrow> exn + pyval" where
  "NRWHelper_resolve mappings data_type key =
     (let table = (case map_of mappings data_type of Some t \<Rightarrow> t | None \<Rightarrow> [])
      in case key of
           PStr k \<Rightarrow> Inr (case map_of table k of Some v \<Rightarrow> PStr v | None \<Rightarrow> PNone)
         | PList xs \<Rightarrow> Inl (Exn TypeError ''unhashable type: list'')
         | PDict kvs \<Rightarrow> Inl (Exn TypeError ''unhashable type: dict'')
         | _ \<Rightarrow> Inr PNone)"

text \<open>
  The coordinates of one NRW row: the \<open>try\<close> around \<open>Transformer.from_crs\<close> and
  \<open>transform\<close>, whose \<open>except Exception: pass\<close> leaves \<open>lat, lon = None, None\<close>.
\<close>

definition nrw_coordinates :: "pylib \<Rightarrow> pyval \<Rightarrow> pyval \<Rightarrow> pyval \<Rightarrow> pyval \<times> pyval" where
  "nrw_coordinates L source_crs right high =
     (case from_crs L source_crs of
        Some e \<Rightarrow> (PNone, PNone)
      | None \<Rightarrow>
          (case transform L source_crs right high of
             Inl e \<Rightarrow> (PNone, PNone)
           | Inr (lon, lat) \<Rightarrow> (lat, lon)))"

definition nrw_school ::
  "pylib \<Rightarrow> (string \<times> (string \<times> string) list) list \<Rightarrow> pyval \<Rightarrow> exn + school" where
  "nrw_school L mappings item =
     and_then (as_dict item) (\<lambda>d.
     and_then (py_join '' '' [dget d ''Schulbezeichnung_1'' (PStr []),
                              dget d ''Schulbezeichnung_2'' (PStr []),
                              dget d ''Schulbezeichnung_3'' (PStr [])]) (\<lambda>joined.
       let right = dget d ''UTMRechtswert'' PNone;
           high = dget d ''UTMHochwert'' PNone;
           epsg = dget d ''EPSG'' PNone;
           source_crs = (if epsg = PStr ''null'' then PStr ''EPSG:25832'' else epsg);
           (lat, lon) = nrw_coordinates L source_crs right high
       in
     and_then (NRWHelper_resolve mappings ''rechtsform'' (dget d ''Rechtsform'' PNone)) (\<lambda>ls.
     and_then (NRWHelper_resolve mappings ''schulform'' (dget d ''Schulform'' PNone)) (\<lambda>st.
     and_then (NRWHelper_resolve mappings ''provider'' (dget d ''Traegernummer'' PNone)) (\<lambda>pr.
       Inr (School\<lparr>
         name := PStr (strip joined),
         school_id := PStr (''NW-'' @ py_str L (dget d ''Schulnummer'' PNone)),
         address := dget d ''Strasse'' PNone,
         school_zip := dget d ''PLZ'' PNone,
         city := dget d ''Ort'' PNone,
         website := dget d ''Homepage'' PNone,
         email := dget d ''E-Mail'' PNone,
         legal_status := ls,
         school_type := st,
         provider := pr,
         fax := PStr (py_str L (dget d ''Faxvorwahl'' (PStr []))
                       @ py_str L (dget d ''Fax'' (PStr []))),
         phone := PStr (py_str L (dget d ''Telefonvorwahl'' (PStr []))
                         @ py_str L (dget d ''Telefon'' (PStr []))),
         latitude := lat,
         longitude := lon\<rparr>))))))"

definition scrape_nordrhein_westfalen :: "pylib \<Rightarrow> web \<Rightarrow> exn + school list" where
  "scrape_nordrhein_westfalen L web =
     and_then (web nrw_url) (\<lambda>response.
     and_then (decode_utf8 L (resp_content response)) (\<lambda>decoded.
     and_then (NRWHelper_load_data L web) (\<lambda>mappings.
     and_then (csv_DictReader L (drop 1 (splitlines L decoded)) (CHR '';'')) (\<lambda>reader.
     for_each (nrw_school L mappings) reader))))"

definition schleswig_holstein_url :: string where
  "schleswig_holstein_url =
     ''https://opendata.schleswig-holstein.de/collection/schulen/aktuell.csv''"

text \<open>\<open>float(row[k]) if row.get(k) else None\<close>.\<close>

definition float_if_present :: "pylib \<Rightarrow> pyval \<Rightarrow> string \<Rightarrow> exn + pyval" where
  "float_if_present L row k =
     and_then (py_get row k PNone) (\<lambda>v.
       if truthy v then and_then (py_getitem row k) (py_float L) else Inr PNone)"

definition schleswig_holstein_school :: "pylib \<Rightarrow> pyval \<Rightarrow> exn + school" where
  "schleswig_holstein_school L row =
     and_then (as_dict row) (\<lambda>d.
     and_then (float_if_present L row ''latitude'') (\<lambda>lat.
     and_then (float_if_present L row ''longitude'') (\<lambda>lon.
       Inr (School\<lparr>
         name := dget d ''name'' PNone,
         school_id := PStr (''SH-'' @ py_str L (dget d ''id'' PNone)),
         address := PStr (strip (py_str L (dget d ''street'' (PStr []))
                      @ '' '' @ py_str L (dget d ''houseNumber'' (PStr [])))),
         school_zip := dget d ''zipcode'' PNone,
         city := dget d ''city'' PNone,
         email := dget d ''email'' PNone,
         fax := dget d ''fax'' PNone,
         phone := dget d ''phone'' PNone,
         latitude := lat,
         longitude := lon\<rparr>))))"

definition scrape_schleswig_holstein :: "pylib \<Rightarrow> web \<Rightarrow> exn + school list" where
  "scrape_schleswig_holstein L web =
     and_then (web schleswig_holstein_url) (\<lambda>response.
     and_then (csv_DictReader L (splitlines L (resp_text response)) (CHR 0x09)) (\<lambda>reader.
     for_each (schleswig_holstein_school L) reader))"

section \<open>scrapers/wfs_xml.py\<close>

text \<open>\<open>s.startswith(p)\<close> and \<open>sub in s\<close> for strings.\<close>

definition startswith :: "string \<Rightarrow> string \<Rightarrow> bool" where
  "startswith s p = (take (length p) s = p)"

definition contains :: "string \<Rightarrow> string \<Rightarrow> bool" where
  "contains s sub = list_ex (\<lambda>i. startswith (drop i s) sub) [0..<Suc (length s)]"

text \<open>\<open>s.split(c, 1)\<close> for a one-character separator.\<close>

definition split1 :: "char \<Rightarrow> string \<Rightarrow> string list" where
  "split1 c s =
     (if c \<in> set s then [takeWhile (\<lambda>x. x \<noteq> c) s, tl (dropWhile (\<lambda>x. x \<noteq> c) s)] else [s])"

text \<open>\<open>a, b = parts\<close>.\<close>

definition unpack2 :: "'a list \<Rightarrow> exn + ('a \<times> 'a)" where
  "unpack2 parts =
     (case parts of
        [a, b] \<Rightarrow> Inr (a, b)
      | [] \<Rightarrow> Inl (Exn ValueError ''not enough values to unpack (expected 2, got 0)'')
      | [a] \<Rightarrow> Inl (Exn ValueError ''not enough values to unpack (expected 2, got 1)'')
      | _ \<Rightarrow> Inl (Exn ValueError ''too many values to unpack (expected 2)''))"

text \<open>\<open>k in v\<close> for a string \<open>k\<close>.\<close>

definition py_in :: "string \<Rightarrow> pyval \<Rightarrow> exn + bool" where
  "py_in k v =
     (case v of
        PDict kvs \<Rightarrow> Inr (k \<in> fst ` set kvs)
      | PStr s \<Rightarrow> Inr (contains s k)
      | PList xs \<Rightarrow> Inr (PStr k \<in> set xs)
      | _ \<Rightarrow> Inl (Exn TypeError
                 (''argument of type '' @ [CHR 0x27] @ type_name v @ [CHR 0x27]
                    @ '' is not iterable'')))"

text \<open>\<open>next(iter(v.values()), {})\<close>: only a dict has the method \<open>values\<close>.\<close>

definition first_value :: "pyval \<Rightarrow> exn + pyval" where
  "first_value v =
     (case v of
        PDict kvs \<Rightarrow> Inr (case kvs of [] \<Rightarrow> PDict [] | kv # _ \<Rightarrow> snd kv)
      | _ \<Rightarrow> Inl (no_attribute v ''values''))"

text \<open>\<open>v.items()\<close>: only a dict has the method.\<close>

definition py_items :: "pyval \<Rightarrow> exn + (string \<times> pyval) list" where
  "py_items v = (case v of PDict kvs \<Rightarrow> Inr kvs | _ \<Rightarrow> Inl (no_attribute v ''items''))"

text \<open>\<open>_parse_wfs_members\<close>.\<close>

definition parse_wfs_members :: "pylib \<Rightarrow> string \<Rightarrow> exn + pyval list" where
  "parse_wfs_members L xml_text =
     and_then (xmltodict_parse L xml_text) (\<lambda>data.
     and_then (py_get data ''wfs:FeatureCollection'' (PDict [])) (\<lambda>fc.
     and_then (py_get fc ''wfs:member'' (PList [])) (\<lambda>members.
       Inr (case members of PList ms \<Rightarrow> ms | _ \<Rightarrow> [members]))))"

text \<open>
  \<open>lon, lat = pos.split()\<close> followed by \<open>float(lat)\<close> and then \<open>float(lon)\<close>, as in
  \<open>scrape_bayern\<close> and \<open>scrape_thueringen\<close>: the pair \<open>(lon, lat)\<close> of floats. There is no
  \<open>try\<close> around these statements in the source.
\<close>

definition parse_pos :: "pylib \<Rightarrow> pyval \<Rightarrow> exn + (pyval \<times> pyval)" where
  "parse_pos L pos =
     and_then (py_split_ws pos) (\<lambda>parts.
     and_then (unpack2 parts) (\<lambda>(a, b).
     and_then (py_float L (PStr b)) (\<lambda>fb.
     and_then (py_float L (PStr a)) (\<lambda>fa. Inr (fa, fb)))))"

definition bayern_url :: string where
  "bayern_url =
     ''https://gdiserv.bayern.de/srv112940/services/schulstandortebayern-wfs?''
     @ ''SERVICE=WFS&VERSION=2.0.0&REQUEST=GetFeature&srsname=EPSG:4326''
     @ ''&typename=''
     @ ''schul:SchulstandorteGrundschulen,''
     @ ''schul:SchulstandorteMittelschulen,''
     @ ''schul:SchulstandorteRealschulen,''
     @ ''schul:SchulstandorteGymnasien,''
     @ ''schul:SchulstandorteBeruflicheSchulen,''
     @ ''schul:SchulstandorteFoerderzentren,''
     @ ''schul:SchulstandorteWeitererSchulen''"

text \<open>
  The loop \<open>for key, value in school.items()\<close> of \<open>scrape_bayern\<close>, from the items still
  to visit and the dict \<open>item\<close> built so far.
\<close>

fun bayern_item ::
  "pylib \<Rightarrow> (string \<times> pyval) list \<Rightarrow> (string \<times> pyval) list \<Rightarrow> exn + (string \<times> pyval) list" where
  "bayern_item L [] item = Inr item"
| "bayern_item L ((key, val) # rest) item =
     (if key = ''schul:geometry'' then
        and_then (py_get val ''gml:Point'' (PDict [])) (\<lambda>point.
        and_then (py_get point ''gml:pos'' (PStr [])) (\<lambda>pos.
          if truthy pos then
            and_then (parse_pos L pos) (\<lambda>(lon, lat).
              bayern_item L rest (AList.update ''lon'' lon (AList.update ''lat'' lat item)))
          else bayern_item L rest item))
      else if \<not> startswith key ''@'' then
        bayern_item L rest (AList.update (last (split1 (CHR '':'') key)) val item)
      else bayern_item L rest item)"

definition bayern_school :: "pylib \<Rightarrow> pyval \<Rightarrow> exn + school" where
  "bayern_school L member =
     and_then (first_value member) (\<lambda>sch.
     and_then (py_get sch ''@gml:id'' PNone) (\<lambda>gml_id.
     and_then (py_items sch) (\<lambda>fields.
     and_then (bayern_item L fields [(''id'', gml_id)]) (\<lambda>item.
       Inr (School\<lparr>
         name := dget item ''schulname'' PNone,
         address := dget item ''strasse'' PNone,
         city := dget item ''ort'' PNone,
         school_type := dget item ''schulart'' PNone,
         school_zip := dget item ''postleitzahl'' PNone,
         school_id := PStr (''BY-'' @ py_str L (dget item ''id'' PNone)),
         latitude := dget item ''lat'' PNone,
         longitude := dget item ''lon'' PNone\<rparr>)))))"

definition scrape_bayern :: "pylib \<Rightarrow> web \<Rightarrow> exn + school list" where
  "scrape_bayern L web =
     and_then (web bayern_url) (\<lambda>resp.
     and_then (parse_wfs_members L (resp_text resp)) (\<lambda>members.
     for_each (bayern_school L) members))"

definition thueringen_url :: string where
  "thueringen_url =
     ''https://www.geoproxy.geoportal-th.de/geoproxy/services/kommunal/komm_wfs?''
     @ ''SERVICE=WFS&REQUEST=GetFeature&typeNames=kommunal:komm_schul''
     @ ''&srsname=EPSG:4326&VERSION=2.0.0''"

text \<open>The loop \<open>for key, value in school_data.items()\<close> of \<open>scrape_thueringen\<close>.\<close>

fun thueringen_item ::
  "(string \<times> pyval) list \<Rightarrow> (string \<times> pyval) list \<Rightarrow> (string \<times> pyval) list" where
  "thueringen_item [] item = item"
| "thueringen_item ((key, val) # rest) item =
     (if key \<notin> {''kommunal:GEOM'', ''@gml:id''} \<and> truthy val then
        thueringen_item rest
          (AList.update (if CHR '':'' \<in> set key then last (split1 (CHR '':'') key) else key)
             val item)
      else thueringen_item rest item)"

definition thueringen_school :: "pylib \<Rightarrow> pyval \<Rightarrow> exn + school" where
  "thueringen_school L member =
     and_then (py_get member ''kommunal:komm_schul'' (PDict [])) (\<lambda>school_data.
     and_then (py_get school_data ''kommunal:GEOM'' (PDict [])) (\<lambda>geom.
     and_then (py_get geom ''gml:Point'' (PDict [])) (\<lambda>point.
     and_then (py_get point ''gml:pos'' (PStr [])) (\<lambda>pos.
     and_then (if truthy pos then
                 and_then (parse_pos L pos) (\<lambda>(lon, lat). Inr [(''lat'', lat), (''lon'', lon)])
               else Inr []) (\<lambda>item0.
     and_then (py_items school_data) (\<lambda>fields.
       let item = thueringen_item fields item0 in
     and_then (py_join '' '' (filter truthy [dget item ''Strasse'' PNone,
                                             dget item ''Hausnummer'' PNone])) (\<lambda>addr.
       Inr (School\<lparr>
         name := dget item ''Name'' PNone,
         school_id := PStr (''TH-'' @ py_str L (dget item ''Schulnummer'' PNone)),
         address := PStr addr,
         school_zip := dget item ''PLZ'' PNone,
         city := dget item ''Ort'' PNone,
         website := dget item ''Webseite'' PNone,
         email := dget item ''EMail'' PNone,
         school_type := dget item ''Schulart'' PNone,
         provider := dget item ''Traeger'' PNone,
         fax := dget item ''Faxnummer'' PNone,
         phone := dget item ''Telefonnummer'' PNone,
         latitude := dget item ''lat'' PNone,
         longitude := dget item ''lon'' PNone\<rparr>))))))))"

definition scrape_thueringen :: "pylib \<Rightarrow> web \<Rightarrow> exn + school list" where
  "scrape_thueringen L web =
     and_then (web thueringen_url) (\<lambda>resp.
     and_then (parse_wfs_members L (resp_text resp)) (\<lambda>members.
     for_each (thueringen_school L) members))"

definition mecklenburg_vorpommern_url :: string where
  "mecklenburg_vorpommern_url =
     ''https://www.geodaten-mv.de/dienste/schulstandorte_wfs?''
     @ ''SERVICE=WFS&REQUEST=GetFeature&VERSION=2.0.0''
     @ ''&srsname=EPSG%3A4326&typeNames=''
     @ ''ms:schultyp_grund,''
     @ ''ms:schultyp_regional,''
     @ ''ms:schultyp_gymnasium,''
     @ ''ms:schultyp_gesamt,''
     @ ''ms:schultyp_waldorf,''
     @ ''ms:schultyp_foerder,''
     @ ''ms:schultyp_abendgym,''
     @ ''ms:schultyp_berufs''"

text \<open>\<open>int(v)\<close>; a float is truncated towards zero.\<close>

definition py_int :: "pylib \<Rightarrow> pyval \<Rightarrow> exn + int" where
  "py_int L v =
     (case v of
        PStr s \<Rightarrow>
          (case int_of_str L s of
             Some i \<Rightarrow> Inr i
           | None \<Rightarrow> Inl (Exn ValueError
                        (''invalid literal for int() with base 10: ''
                           @ [CHR 0x27] @ s @ [CHR 0x27])))
      | PInt i \<Rightarrow> Inr i
      | PBool b \<Rightarrow> Inr (if b then 1 else 0)
      | PFloat r \<Rightarrow> Inr (if r < 0 then \<lceil>r\<rceil> else \<lfloor>r\<rfloor>)
      | _ \<Rightarrow> Inl (Exn TypeError
                 (''int() argument must be a string, a bytes-like object or a real number, not ''
                    @ [CHR 0x27] @ type_name v @ [CHR 0x27])))"

text \<open>
  \<open>as_string\<close> of \<open>scrape_mecklenburg_vorpommern\<close>: \<open>int\<close> raises nothing but \<open>ValueError\<close>
  and \<open>TypeError\<close>, which the function catches.
\<close>

definition as_string :: "pylib \<Rightarrow> pyval \<Rightarrow> string" where
  "as_string L v =
     (case py_int L v of
        Inr i \<Rightarrow> str_int i
      | Inl e \<Rightarrow> (if truthy v then py_str L v else []))"

text \<open>\<open>s.zfill(width)\<close>.\<close>

definition zfill :: "nat \<Rightarrow> string \<Rightarrow> string" where
  "zfill width s =
     (if length s \<ge> width then s
      else case s of
             c # cs \<Rightarrow>
               (if c = CHR ''+'' \<or> c = CHR ''-''
                then c # replicate (width - length s) (CHR ''0'') @ cs
                else replicate (width - length s) (CHR ''0'') @ s)
           | [] \<Rightarrow> replicate width (CHR ''0''))"

text \<open>\<open>extract_school_data\<close>, as the loop over the items still to visit.\<close>

fun extract_school_data ::
  "pylib \<Rightarrow> (string \<times> pyval) list \<Rightarrow> (string \<times> pyval) list \<Rightarrow> exn + (string \<times> pyval) list" where
  "extract_school_data L [] item = Inr item"
| "extract_school_data L ((key, val) # rest) item =
     (if key = ''ms:msGeometry'' then
        and_then (py_get val ''gml:Point'' (PDict [])) (\<lambda>point.
        and_then (py_get point ''gml:pos'' (PStr [])) (\<lambda>pos.
          if truthy pos then
            and_then (py_split_ws pos) (\<lambda>parts.
            and_then (unpack2 parts) (\<lambda>(lat, lon).
            and_then (py_float L (PStr lat)) (\<lambda>flat.
            and_then (py_float L (PStr lon)) (\<lambda>flon.
              extract_school_data L rest
                (AList.update ''lon'' flon (AList.update ''lat'' flat item))))))
          else extract_school_data L rest item))
      else if \<not> startswith key ''@'' then
        extract_school_data L rest
          (AList.update (if CHR '':'' \<in> set key then last (split1 (CHR '':'') key) else key)
             val item)
      else extract_school_data L rest item)"

text \<open>\<open>_build_mv_school\<close>.\<close>

definition build_mv_school :: "pylib \<Rightarrow> (string \<times> pyval) list \<Rightarrow> exn + school" where
  "build_mv_school L item =
     and_then (safe_strip (dget item ''schulname'' PNone)) (\<lambda>v_name.
     and_then (safe_strip (dget item ''strassehnr'' PNone)) (\<lambda>v_address.
     and_then (safe_strip (dget item ''ort'' PNone)) (\<lambda>v_city.
     and_then (safe_strip (dget item ''internet'' PNone)) (\<lambda>v_website.
     and_then (safe_strip (dget item ''emailadresse'' PNone)) (\<lambda>v_email.
     and_then (safe_strip (dget item ''telefon'' PNone)) (\<lambda>v_phone.
     and_then (safe_strip (dget item ''schulleiter'' PNone)) (\<lambda>v_director.
     and_then (safe_strip (dget item ''orgform'' PNone)) (\<lambda>v_type.
     and_then (safe_strip (dget item ''rechtsstatus'' PNone)) (\<lambda>v_legal.
     and_then (safe_strip (dget item ''schultraeger'' PNone)) (\<lambda>v_provider.
       Inr (School\<lparr>
         name := v_name,
         school_id := PStr (''MV-'' @ as_string L (dget item ''dstnr'' (PStr []))),
         address := v_address,
         address2 := PStr [],
         school_zip := PStr (zfill 5 (as_string L (dget item ''plz'' (PStr [])))),
         city := v_city,
         website := v_website,
         email := v_email,
         phone := v_phone,
         director := v_director,
         school_type := v_type,
         legal_status := v_legal,
         provider := v_provider,
         latitude := dget item ''lat'' PNone,
         longitude := dget item ''lon'' PNone\<rparr>)))))))))))"

text \<open>The school of one (inner or outer) \<open>wfs:member\<close>.\<close>

definition mv_member_school :: "pylib \<Rightarrow> pyval \<Rightarrow> exn + school" where
  "mv_member_school L member =
     and_then (first_value member) (\<lambda>school_elem.
     and_then (py_items school_elem) (\<lambda>fields.
     and_then (extract_school_data L fields []) (build_mv_school L)))"

text \<open>One round of the loop over the members: the schools it appends.\<close>

definition mv_member :: "pylib \<Rightarrow> pyval \<Rightarrow> exn + school list" where
  "mv_member L member =
     and_then (py_in ''wfs:FeatureCollection'' member) (\<lambda>nested.
       if nested then
         and_then (py_getitem member ''wfs:FeatureCollection'') (\<lambda>fc.
         and_then (py_get fc ''wfs:member'' (PList [])) (\<lambda>inner.
           for_each (mv_member_school L) (case inner of PList ms \<Rightarrow> ms | _ \<Rightarrow> [inner])))
       else and_then (mv_member_school L member) (\<lambda>s. Inr [s]))"

text \<open>
  \<open>scrape_mecklenburg_vorpommern\<close> parses the members with the statements of
  \<open>_parse_wfs_members\<close>, written out in its body.
\<close>

definition scrape_mecklenburg_vorpommern :: "pylib \<Rightarrow> web \<Rightarrow> exn + school list" where
  "scrape_mecklenburg_vorpommern L web =
     and_then (web mecklenburg_vorpommern_url) (\<lambda>resp.
     and_then (parse_wfs_members L (resp_text resp)) (\<lambda>members.
     and_then (for_each (mv_member L) members) (\<lambda>parts. Inr (concat parts))))"

section \<open>scrapers/api.py\<close>

text \<open>
  \<open>_DISCH_RE.search(s)\<close> for the pattern \<open>@(\d{8})\.schule\.bwl\.de\<close>, ignoring case: the
  eight digits of the leftmost match, if any.
\<close>

definition is_digit :: "char \<Rightarrow> bool" where
  "is_digit c = (CHR ''0'' \<le> c \<and> c \<le> CHR ''9'')"

definition disch_at :: "string \<Rightarrow> string option" where
  "disch_at s =
     (case s of
        [] \<Rightarrow> None
      | c # rest \<Rightarrow>
          (if c = CHR ''@'' \<and> length (take 8 rest) = 8 \<and> list_all is_digit (take 8 rest)
              \<and> lower (take 14 (drop 8 rest)) = ''.schule.bwl.de''
           then Some (take 8 rest) else None))"

fun disch_search :: "string \<Rightarrow> string option" where
  "disch_search [] = None"
| "disch_search (c # cs) =
     (case disch_at (c # cs) of Some d \<Rightarrow> Some d | None \<Rightarrow> disch_search cs)"

text \<open>\<open>_extract_disch\<close>.\<close>

definition extract_disch :: "pyval \<Rightarrow> exn + string option" where
  "extract_disch v_email =
     (if \<not> truthy v_email then Inr None
      else and_then (py_strip v_email) (\<lambda>s.
             case s of PStr t \<Rightarrow> Inr (disch_search t) | _ \<Rightarrow> Inr None))"

definition baden_wuerttemberg_url :: string where
  "baden_wuerttemberg_url =
     ''https://gis.kultus-bw.de/geoserver/us-govserv/ows?''
     @ ''service=WFS&request=GetFeature''
     @ ''&typeNames=us-govserv%3AGovernmentalService''
     @ ''&outputFormat=application%2Fjson''"

text \<open>\<open>coords[i] if coords and len(coords) >= 2 else None\<close>.\<close>

definition coord_or_none :: "pyval \<Rightarrow> nat \<Rightarrow> exn + pyval" where
  "coord_or_none coords i =
     (if truthy coords then
        and_then (py_len coords) (\<lambda>n. if n \<ge> 2 then py_item coords i else Inr PNone)
      else Inr PNone)"

text \<open>\<open>x.get("text", "") if isinstance(x, dict) else ""\<close>.\<close>

definition text_of_spelling :: "pyval \<Rightarrow> pyval" where
  "text_of_spelling x = (case x of PDict d \<Rightarrow> dget d ''text'' (PStr []) | _ \<Rightarrow> PStr [])"

text \<open>The street of an address, from \<open>thoroughfare\<close>.\<close>

definition bw_street :: "pyval \<Rightarrow> exn + pyval" where
  "bw_street thoroughfare =
     (case thoroughfare of
        PDict d \<Rightarrow>
          and_then (py_get (dget d ''GeographicalName'' (PDict [])) ''spelling'' (PDict []))
            (\<lambda>street_obj.
               case street_obj of
                 PDict sd \<Rightarrow> py_strip (dget sd ''text'' (PStr []))
               | _ \<Rightarrow> Inr (PStr []))
      | _ \<Rightarrow> Inr (PStr []))"

text \<open>One round of the loop of \<open>scrape_baden_wuerttemberg\<close>: the school it appends.\<close>

definition baden_wuerttemberg_school :: "pylib \<Rightarrow> pyval \<Rightarrow> exn + school" where
  "baden_wuerttemberg_school L feature =
     and_then (py_get feature ''id'' PNone) (\<lambda>uuid.
     and_then (py_getitem feature ''properties'') (\<lambda>props.
     and_then (py_get props ''serviceLocation'' (PDict [])) (\<lambda>service_loc.
     and_then (py_get service_loc ''serviceLocationByGeometry'' (PDict [])) (\<lambda>geom.
     and_then (py_get geom ''coordinates'' PNone) (\<lambda>coords.
     and_then (coord_or_none coords 0) (\<lambda>lat.
     and_then (coord_or_none coords 1) (\<lambda>lon.
     and_then (py_get props ''pointOfContact'' (PDict [])) (\<lambda>poc.
     and_then (py_get poc ''Contact'' (PDict [])) (\<lambda>contact.
     and_then (py_get contact ''address'' (PDict [])) (\<lambda>address_obj.
     and_then (py_get address_obj ''AddressRepresentation'' (PDict [])) (\<lambda>addr.
     and_then (py_get addr ''locatorName'' (PDict [])) (\<lambda>locator_name.
     and_then (py_get locator_name ''spelling'' (PDict [])) (\<lambda>name_spelling.
     and_then (py_get addr ''thoroughfare'' (PDict [])) (\<lambda>thoroughfare.
     and_then (bw_street thoroughfare) (\<lambda>street.
     and_then (py_get addr ''locatorDesignator'' (PStr [])) (\<lambda>locator_raw.
     and_then (py_strip locator_raw) (\<lambda>locator.
     and_then (py_get addr ''postCode'' (PStr [])) (\<lambda>zip_raw.
     and_then (py_strip zip_raw) (\<lambda>zip_code.
     and_then (py_get addr ''postName'' (PDict [])) (\<lambda>post_name.
     and_then (py_get post_name ''GeographicalName'' (PDict [])) (\<lambda>city_obj.
     and_then (py_get city_obj ''spelling'' (PDict [])) (\<lambda>city_spelling.
     and_then (case city_spelling of
                 PDict cd \<Rightarrow> py_strip (dget cd ''text'' (PStr []))
               | _ \<Rightarrow> Inr (PStr [])) (\<lambda>city_name.
     and_then (py_get contact ''electronicMailAddress'' (PStr [])) (\<lambda>v_email.
     and_then (py_get contact ''telephoneVoice'' (PStr [])) (\<lambda>v_phone.
     and_then (py_get contact ''telephoneFacsimile'' (PStr [])) (\<lambda>v_fax.
     and_then (py_get contact ''website'' (PStr [])) (\<lambda>v_website.
     and_then (extract_disch v_email) (\<lambda>disch.
     and_then (py_get props ''serviceType'' (PDict [])) (\<lambda>service_type_obj.
     and_then (py_get service_type_obj ''@href'' (PStr [])) (\<lambda>service_type.
       Inr (School\<lparr>
         school_id := PStr (case disch of
                              Some d \<Rightarrow> (if d \<noteq> [] then ''BW-'' @ d
                                         else ''BW-UUID-'' @ py_str L uuid)
                            | None \<Rightarrow> ''BW-UUID-'' @ py_str L uuid),
         name := text_of_spelling name_spelling,
         address := (if truthy street
                     then PStr (strip (py_str L street @ '' '' @ py_str L locator))
                     else PNone),
         school_zip := zip_code,
         city := city_name,
         email := v_email,
         phone := v_phone,
         fax := v_fax,
         website := (if truthy v_website then v_website else PNone),
         school_type := service_type,
         latitude := lat,
         longitude := lon\<rparr>)))))))))))))))))))))))))))))))"

definition scrape_baden_wuerttemberg :: "pylib \<Rightarrow> web \<Rightarrow> exn + school list" where
  "scrape_baden_wuerttemberg L web =
     and_then (web baden_wuerttemberg_url) (\<lambda>resp.
     and_then (resp_json resp) (\<lambda>data.
     and_then (py_get data ''features'' (PList [])) (\<lambda>features.
     and_then (py_iter features) (for_each (baden_wuerttemberg_school L)))))"

definition sachsen_school_types_url :: string where
  "sachsen_school_types_url =
     ''https://schuldatenbank.sachsen.de/api/v1/key_tables/school_types?format=json''"

definition sachsen_url :: string where
  "sachsen_url =
     ''https://schuldatenbank.sachsen.de/api/v1/schools?''
     @ ''owner_extended=yes''
     @ ''&school_type_key%5B%5D=11&school_type_key%5B%5D=12''
     @ ''&school_type_key%5B%5D=15&school_type_key%5B%5D=13''
     @ ''&school_type_key%5B%5D=14&school_type_key%5B%5D=16''
     @ ''&school_type_key%5B%5D=31&school_type_key%5B%5D=32''
     @ ''&school_type_key%5B%5D=33&school_type_key%5B%5D=34''
     @ ''&school_type_key%5B%5D=35&school_type_key%5B%5D=36''
     @ ''&school_type_key%5B%5D=37&school_type_key%5B%5D=39''
     @ ''&school_type_key%5B%5D=21&school_type_key%5B%5D=22''
     @ ''&school_type_key%5B%5D=23&school_type_key%5B%5D=24''
     @ ''&school_type_key%5B%5D=25&school_type_key%5B%5D=28''
     @ ''&school_type_key%5B%5D=42&school_type_key%5B%5D=43''
     @ ''&school_type_key%5B%5D=44&building_type_key=01''
     @ ''&fields%5B%5D=id&fields%5B%5D=name''
     @ ''&fields%5B%5D=school_category_key&fields%5B%5D=school_type_keys''
     @ ''&fields%5B%5D=street&fields%5B%5D=postcode''
     @ ''&fields%5B%5D=community&fields%5B%5D=community_key''
     @ ''&fields%5B%5D=community_part&fields%5B%5D=community_part_key''
     @ ''&fields%5B%5D=relocated''
     @ ''&fields%5B%5D=phone_identifier_1&fields%5B%5D=phone_code_1''
     @ ''&fields%5B%5D=phone_number_1''
     @ ''&fields%5B%5D=phone_identifier_2&fields%5B%5D=phone_code_2''
     @ ''&fields%5B%5D=phone_number_2''
     @ ''&fields%5B%5D=phone_identifier_3&fields%5B%5D=phone_code_3''
     @ ''&fields%5B%5D=phone_number_3''
     @ ''&fields%5B%5D=fax_code&fields%5B%5D=fax_number''
     @ ''&fields%5B%5D=mail&fields%5B%5D=homepage''
     @ ''&fields%5B%5D=longitude&fields%5B%5D=latitude''
     @ ''&order%5B%5D=name&format=json''"

text \<open>\<open>_load_sachsen_school_types\<close>: the dict from type key to label.\<close>

definition load_sachsen_school_types :: "pylib \<Rightarrow> web \<Rightarrow> exn + (int \<times> pyval) list" where
  "load_sachsen_school_types L web =
     and_then (web sachsen_school_types_url) (\<lambda>resp.
     and_then (resp_json resp) (\<lambda>entries.
     and_then (py_iter entries) (\<lambda>es.
     and_then (for_each (\<lambda>entry.
                 and_then (py_getitem entry ''key'') (\<lambda>k.
                 and_then (py_int L k) (\<lambda>i.
                 and_then (py_getitem entry ''label'') (\<lambda>label. Inr (i, label))))) es)
       (\<lambda>kvs. Inr (dict_of kvs)))))"

text \<open>
  \<open>school_types.get(k)\<close> on the dict with integer keys: a bool or a float equal to an
  integer is the same key, a list or a dict cannot be hashed.
\<close>

definition school_types_get :: "(int \<times> pyval) list \<Rightarrow> pyval \<Rightarrow> exn + pyval" where
  "school_types_get school_types k =
     (let look = (\<lambda>i. case map_of school_types i of Some v \<Rightarrow> v | None \<Rightarrow> PNone)
      in case k of
           PInt i \<Rightarrow> Inr (look i)
         | PBool b \<Rightarrow> Inr (look (if b then 1 else 0))
         | PFloat r \<Rightarrow> Inr (if r = of_int \<lfloor>r\<rfloor> then look \<lfloor>r\<rfloor> else PNone)
         | PList xs \<Rightarrow> Inl (Exn TypeError ''unhashable type: list'')
         | PDict kvs \<Rightarrow> Inl (Exn TypeError ''unhashable type: dict'')
         | _ \<Rightarrow> Inr PNone)"

text \<open>The \<open>if building:\<close> block, which fills the fields of \<open>school\<close>.\<close>

definition sachsen_building :: "(int \<times> pyval) list \<Rightarrow> pyval \<Rightarrow> school \<Rightarrow> exn + school" where
  "sachsen_building school_types building sch =
     and_then (as_dict building) (\<lambda>b.
     and_then (py_join [] [py_or (dget b ''fax_code'' PNone) (PStr []),
                           py_or (dget b ''fax_number'' PNone) (PStr [])]) (\<lambda>v_fax.
     and_then (py_join [] [py_or (dget b ''phone_code_1'' PNone) (PStr []),
                           py_or (dget b ''phone_number_1'' PNone) (PStr [])]) (\<lambda>v_phone.
       let sch1 = sch\<lparr>address := dget b ''street'' PNone,
                      school_zip := dget b ''postcode'' PNone,
                      city := dget b ''community'' PNone,
                      email := dget b ''mail'' PNone,
                      website := dget b ''homepage'' PNone,
                      fax := PStr v_fax,
                      phone := PStr v_phone,
                      latitude := dget b ''latitude'' PNone,
                      longitude := dget b ''longitude'' PNone\<rparr>;
           type_keys = dget b ''school_type_keys'' (PList [PNone])
       in if truthy type_keys then
            and_then (py_item type_keys 0) (\<lambda>k.
            and_then (school_types_get school_types k) (\<lambda>t. Inr (sch1\<lparr>school_type := t\<rparr>)))
          else Inr sch1)))"

text \<open>One round of the loop of \<open>scrape_sachsen\<close>.\<close>

definition sachsen_school :: "pylib \<Rightarrow> (int \<times> pyval) list \<Rightarrow> pyval \<Rightarrow> exn + school" where
  "sachsen_school L school_types item =
     and_then (as_dict item) (\<lambda>d.
     and_then (py_item (py_or (dget d ''buildings'' PNone) (PList [PNone])) 0) (\<lambda>building.
       let sch = School\<lparr>name := dget d ''name'' PNone,
                       school_id := PStr (''SN-'' @ py_str L (dget d ''id'' PNone))\<rparr>
       in if truthy building then sachsen_building school_types building sch else Inr sch))"

definition scrape_sachsen :: "pylib \<Rightarrow> web \<Rightarrow> exn + school list" where
  "scrape_sachsen L web =
     and_then (load_sachsen_school_types L web) (\<lambda>school_types.
     and_then (web sachsen_url) (\<lambda>resp.
     and_then (resp_json resp) (\<lambda>raw_schools.
     and_then (py_iter raw_schools) (for_each (sachsen_school L school_types)))))"

definition sachsen_anhalt_url :: string where
  "sachsen_anhalt_url =
     ''https://services-eu1.arcgis.com/3jNCHSftk0N4t7dd/arcgis/rest/services/''
     @ ''Schulenstandorte_EPSG25832_2024_25_Sicht/FeatureServer/44/query?''
     @ ''where=1%3D1&outFields=*&f=json''"

text \<open>The format specification \<open>:05d\<close> of an f-string.\<close>

definition format_05d :: "pyval \<Rightarrow> exn + string" where
  "format_05d v =
     (case v of
        PInt i \<Rightarrow> Inr (zfill 5 (str_int i))
      | PBool b \<Rightarrow> Inr (zfill 5 (str_int (if b then 1 else 0)))
      | PFloat r \<Rightarrow> Inl (Exn ValueError
                        ''Unknown format code d for object of type float'')
      | PStr s \<Rightarrow> Inl (Exn ValueError
                      ''Unknown format code d for object of type str'')
      | _ \<Rightarrow> Inl (Exn TypeError
                 (''unsupported format string passed to '' @ type_name v @ ''.__format__'')))"

text \<open>The coordinates of one feature: \<open>(latitude, longitude)\<close>.\<close>

definition sachsen_anhalt_coordinates :: "pylib \<Rightarrow> pyval \<Rightarrow> exn + (pyval \<times> pyval)" where
  "sachsen_anhalt_coordinates L geom =
     (if \<not> truthy geom then Inr (PNone, PNone)
      else and_then (py_in ''x'' geom) (\<lambda>has_x.
             if \<not> has_x then Inr (PNone, PNone)
             else and_then (py_in ''y'' geom) (\<lambda>has_y.
                    if \<not> has_y then Inr (PNone, PNone)
                    else and_then (py_getitem geom ''x'') (\<lambda>x.
                         and_then (py_getitem geom ''y'') (\<lambda>y.
                         and_then (transform L (PStr ''EPSG:25832'') x y) (\<lambda>(lon, lat).
                           Inr (lat, lon)))))))"

definition sachsen_anhalt_school :: "pylib \<Rightarrow> pyval \<Rightarrow> exn + school" where
  "sachsen_anhalt_school L feature =
     and_then (py_getitem feature ''attributes'') (\<lambda>attrs.
     and_then (py_get feature ''geometry'' (PDict [])) (\<lambda>geom.
     and_then (sachsen_anhalt_coordinates L geom) (\<lambda>(lat, lon).
     and_then (as_dict attrs) (\<lambda>a.
     and_then (format_05d (dget a ''OBJECTID'' (PInt 0))) (\<lambda>num.
       Inr (School\<lparr>
         name := dget a ''Name'' PNone,
         school_id := PStr (''ST-ARC'' @ num),
         city := dget a ''Ort'' PNone,
         school_type := dget a ''Schulform'' PNone,
         legal_status := dget a ''Kategorie'' PNone,
         provider := dget a ''Traeg_Anw'' PNone,
         latitude := lat,
         longitude := lon\<rparr>))))))"

definition scrape_sachsen_anhalt :: "pylib \<Rightarrow> web \<Rightarrow> exn + school list" where
  "scrape_sachsen_anhalt L web =
     (case from_crs L (PStr ''EPSG:25832'') of
        Some e \<Rightarrow> Inl e
      | None \<Rightarrow>
          and_then (web sachsen_anhalt_url) (\<lambda>resp.
          and_then (resp_json resp) (\<lambda>data.
          and_then (py_get data ''features'' (PList [])) (\<lambda>features.
          and_then (py_iter features) (for_each (sachsen_anhalt_school L))))))"

section \<open>scrapers/html.py\<close>

text \<open>\<open>s.split(c)\<close> for a one-character separator.\<close>

fun split_char_from :: "char \<Rightarrow> string \<Rightarrow> string \<Rightarrow> string list" where
  "split_char_from c cur [] = [cur]"
| "split_char_from c cur (x # xs) =
     (if x = c then cur # split_char_from c [] xs else split_char_from c (cur @ [x]) xs)"

definition split_char :: "char \<Rightarrow> string \<Rightarrow> string list" where
  "split_char c s = split_char_from c [] s"

text \<open>
  The position of the first occurrence of \<open>sub\<close> in \<open>s\<close>, \<open>s.split(sub, 1)\<close> and
  \<open>s.replace(old, new)\<close> for a non-empty \<open>old\<close> (\<open>skip\<close> counts the characters of a
  replaced occurrence still to pass over).
\<close>

fun find_sub :: "string \<Rightarrow> string \<Rightarrow> nat option" where
  "find_sub sub [] = (if sub = [] then Some 0 else None)"
| "find_sub sub (c # cs) =
     (if startswith (c # cs) sub then Some 0 else map_option Suc (find_sub sub cs))"

definition split_sub1 :: "string \<Rightarrow> string \<Rightarrow> string list" where
  "split_sub1 sep s =
     (case find_sub sep s of
        None \<Rightarrow> [s]
      | Some i \<Rightarrow> [take i s, drop (i + length sep) s])"

fun replace_from :: "string \<Rightarrow> string \<Rightarrow> nat \<Rightarrow> string \<Rightarrow> string" where
  "replace_from old new skip [] = []"
| "replace_from old new skip (c # cs) =
     (if skip > 0 then replace_from old new (skip - 1) cs
      else if startswith (c # cs) old then new @ replace_from old new (length old - 1) cs
      else c # replace_from old new 0 cs)"

definition replace :: "string \<Rightarrow> string \<Rightarrow> string \<Rightarrow> string" where
  "replace s old new = replace_from old new 0 s"

text \<open>
  What the HTML scrapers see of the network besides \<open>fetch\<close>: \<open>post\<close> of \<open>utils.py\<close> (with
  the XSRF token it sends), and the plain \<open>get\<close> and \<open>post\<close> of a \<open>requests.Session\<close>, which
  neither retry nor check the status.
\<close>

record upstream =
  fetch_get :: web
  fetch_post :: "string \<Rightarrow> string \<Rightarrow> exn + response"
  session_get :: "string \<Rightarrow> exn + response"
  session_post :: "string \<Rightarrow> (string \<times> string) list \<Rightarrow> exn + response"

text \<open>
  The XSRF token of \<open>scrape_niedersachsen\<close>. The \<open>break\<close> leaves the inner loop only: in
  each cookie the first part that starts with \<open>XSRF-TOKEN=\<close> counts, and a later cookie
  replaces the token of an earlier one.
\<close>

definition cookie_token :: "pylib \<Rightarrow> string \<Rightarrow> string option" where
  "cookie_token L cookie =
     (case filter (\<lambda>part. startswith part ''XSRF-TOKEN='')
             (map strip (split_char (CHR '';'') cookie)) of
        [] \<Rightarrow> None
      | part # _ \<Rightarrow> Some (unquote L (split1 (CHR ''='') part ! 1)))"

definition xsrf_token_of :: "pylib \<Rightarrow> response \<Rightarrow> string option" where
  "xsrf_token_of L session_resp =
     foldl (\<lambda>token cookie. case cookie_token L cookie of Some t \<Rightarrow> Some t | None \<Rightarrow> token)
       None
       (split_char (CHR '','') (case set_cookie session_resp of Some h \<Rightarrow> h | None \<Rightarrow> []))"

text \<open>The record \<open>scrape_niedersachsen\<close> builds from the detail \<open>item\<close> of a school.\<close>

definition niedersachsen_school :: "pylib \<Rightarrow> pyval \<Rightarrow> pyval \<Rightarrow> exn + school" where
  "niedersachsen_school L schulnr item =
     and_then (as_dict item) (\<lambda>d.
     and_then (py_join '' '' [dget d ''schulname'' (PStr []),
                              dget d ''namenszuatz'' (PStr [])]) (\<lambda>joined.
     and_then (py_item (py_or (dget d ''sdb_adressen'' PNone) (PList [PDict []])) 0)
       (\<lambda>address_info.
     and_then (py_get address_info ''sdb_ort'' (PDict [])) (\<lambda>ort.
     and_then (py_get (py_or (dget d ''sdb_art'' PNone) (PDict [])) ''art'' PNone) (\<lambda>v_type.
     and_then (py_get (py_or (dget d ''sdb_traeger'' PNone) (PDict [])) ''name'' PNone)
       (\<lambda>v_provider.
     and_then (py_get address_info ''strasse'' PNone) (\<lambda>v_address.
     and_then (py_get ort ''plz'' PNone) (\<lambda>v_zip.
     and_then (py_get ort ''ort'' PNone) (\<lambda>v_city.
     and_then (py_get (py_or (dget d ''sdb_traegerschaft'' PNone) (PDict []))
                 ''bezeichnung'' PNone) (\<lambda>v_legal.
       Inr (School\<lparr>
         name := PStr (strip joined),
         phone := dget d ''telefon'' PNone,
         fax := dget d ''fax'' PNone,
         email := dget d ''email'' PNone,
         website := dget d ''homepage'' PNone,
         address := v_address,
         school_zip := v_zip,
         city := v_city,
         school_type := v_type,
         provider := v_provider,
         legal_status := v_legal,
         school_id := PStr (''NI-'' @ py_str L schulnr)\<rparr>)))))))))))"

text \<open>
  One round of the detail loop: nothing for an entry without \<open>schulnr\<close> or whose detail
  cannot be fetched or decoded (the two \<open>continue\<close>), else the school.
\<close>

definition niedersachsen_entry :: "pylib \<Rightarrow> web \<Rightarrow> pyval \<Rightarrow> exn + school list" where
  "niedersachsen_entry L web s =
     and_then (py_get s ''schulnr'' PNone) (\<lambda>schulnr.
       if \<not> truthy schulnr then Inr []
       else
         (case and_then (web (''https://schulen.nibis.de/school/getInfo/'' @ py_str L schulnr))
                 resp_json of
            Inl e \<Rightarrow> Inr []
          | Inr item \<Rightarrow> and_then (niedersachsen_school L schulnr item) (\<lambda>sch. Inr [sch])))"

definition scrape_niedersachsen :: "pylib \<Rightarrow> upstream \<Rightarrow> exn + school list" where
  "scrape_niedersachsen L U =
     and_then (fetch_get U ''https://schulen.nibis.de/search/advanced'') (\<lambda>session_resp.
       case xsrf_token_of L session_resp of
         None \<Rightarrow> Inr []
       | Some xsrf_token \<Rightarrow>
           if xsrf_token = [] then Inr []
           else
             and_then (fetch_post U ''https://schulen.nibis.de/school/search'' xsrf_token)
               (\<lambda>search_resp.
             and_then (resp_json search_resp) (\<lambda>search_data.
             and_then (py_get search_data ''props'' (PDict [])) (\<lambda>props.
             and_then (py_get props ''schools'' (PList [])) (\<lambda>school_list.
             and_then (py_len school_list) (\<lambda>n.
             and_then (py_iter school_list) (\<lambda>entries.
             and_then (for_each (niedersachsen_entry L (fetch_get U)) entries) (\<lambda>parts.
               Inr (concat parts)))))))))"

text \<open>
  The strings of a parsed page, as BeautifulSoup gives them: \<open>el.get(a, dflt)\<close> and
  \<open>el[a]\<close> for an attribute, \<open>el.get_text()\<close>, \<open>el.stripped_strings\<close> and
  \<open>el.get_text(strip=True)\<close>.
\<close>

fun attr :: "html \<Rightarrow> string \<Rightarrow> string \<Rightarrow> string" where
  "attr (Element tag attrs children) a dflt =
     (case map_of attrs a of Some v \<Rightarrow> v | None \<Rightarrow> dflt)"
| "attr (Text t) a dflt = dflt"

fun attr_item :: "html \<Rightarrow> string \<Rightarrow> exn + string" where
  "attr_item (Element tag attrs children) a =
     (case map_of attrs a of
        Some v \<Rightarrow> Inr v
      | None \<Rightarrow> Inl (Exn KeyError ([CHR 0x27] @ a @ [CHR 0x27])))"
| "attr_item (Text t) a = Inl (Exn TypeError ''string indices must be integers'')"

fun all_strings :: "html \<Rightarrow> string list" where
  "all_strings (Text t) = [t]"
| "all_strings (Element tag attrs children) = concat (map all_strings children)"

definition get_text :: "html \<Rightarrow> string" where
  "get_text el = concat (all_strings el)"

definition stripped_strings :: "html \<Rightarrow> string list" where
  "stripped_strings el = filter (\<lambda>t. t \<noteq> []) (map strip (all_strings el))"

definition get_text_strip :: "html \<Rightarrow> string" where
  "get_text_strip el = concat (stripped_strings el)"

text \<open>\<open>soup.select_one(css)\<close>.\<close>

definition select_one :: "pylib \<Rightarrow> string \<Rightarrow> html \<Rightarrow> html option" where
  "select_one L css soup = (case css_select L css soup of [] \<Rightarrow> None | el # _ \<Rightarrow> Some el)"

subsection \<open>Bremen\<close>

definition bremen_list_url :: string where
  "bremen_list_url = ''http://www.bildung.bremen.de/detail.php?template=35_schulsuche_stufe2_d''"

text \<open>\<open>c.isdigit()\<close> below 256: the ten digits and the superscripts 1, 2, 3.\<close>

definition py_isdigit :: "char \<Rightarrow> bool" where
  "py_isdigit c = (is_digit c \<or> c = CHR 0xB2 \<or> c = CHR 0xB3 \<or> c = CHR 0xB9)"

text \<open>\<open>fix_number\<close>, on a value of the dict \<open>collection\<close>.\<close>

definition fix_number :: "pyval \<Rightarrow> exn + pyval" where
  "fix_number number =
     (case number of
        PStr s \<Rightarrow> Inr (PStr (filter py_isdigit s))
      | _ \<Rightarrow> Inl (Exn TypeError
                 ([CHR 0x27] @ type_name number @ [CHR 0x27] @ '' object is not iterable'')))"

text \<open>The loop \<open>for li in lis\<close> that fills \<open>collection\<close>.\<close>

fun bremen_fields ::
  "pylib \<Rightarrow> html list \<Rightarrow> (string \<times> pyval) list \<Rightarrow> (string \<times> pyval) list" where
  "bremen_fields L [] collection = collection"
| "bremen_fields L (li # lis) collection =
     (case select_one L ''span[title]'' li of
        None \<Rightarrow> bremen_fields L lis collection
      | Some title_span \<Rightarrow>
          bremen_fields L lis
            (AList.update (attr title_span ''title'' []) (PStr (join '' '' (stripped_strings li)))
               collection))"

text \<open>\<open>v.replace(old, new)\<close>: only a string has the method.\<close>

definition py_replace :: "pyval \<Rightarrow> string \<Rightarrow> string \<Rightarrow> exn + string" where
  "py_replace v old new =
     (case v of PStr s \<Rightarrow> Inr (replace s old new) | _ \<Rightarrow> Inl (no_attribute v ''replace''))"

definition bremen_director :: "(string \<times> pyval) list \<Rightarrow> exn + pyval" where
  "bremen_director collection =
     (if ''Ansprechperson'' \<in> fst ` set collection then
        and_then (py_replace (dget collection ''Ansprechperson'' PNone) ''Schulleitung:'' [])
          (\<lambda>s. Inr (PStr (strip (replace
                   (hd (split_char (CHR '','') (replace s ''Vertretung:'' '','')))
                   [CHR 0x0A] []))))
      else Inr PNone)"

text \<open>The record built from a filled \<open>collection\<close>.\<close>

definition bremen_school :: "pylib \<Rightarrow> (string \<times> pyval) list \<Rightarrow> exn + school" where
  "bremen_school L collection =
     and_then (py_strip (dget collection ''Anschrift:'' (PStr []))) (\<lambda>address_val.
       let address_raw = (case address_val of PStr s \<Rightarrow> s | _ \<Rightarrow> []);
           zip_match = re_findall L ([CHR 0x5C] @ ''d{5}'') address_raw;
           zip_code = (if zip_match \<noteq> [] then PStr (hd zip_match) else PNone);
           address_parts = re_split L ([CHR 0x5C] @ ''d{5}'') address_raw;
           v_address = (if address_parts \<noteq> [] then PStr (strip (hd address_parts)) else PNone);
           v_city = (if length address_parts > 1 then PStr (strip (address_parts ! 1))
                     else PNone)
       in
     and_then (bremen_director collection) (\<lambda>v_director.
     and_then (py_getitem (PDict collection) ''name'') (\<lambda>name_val.
     and_then (py_strip name_val) (\<lambda>v_name.
     and_then (py_getitem (PDict collection) ''id'') (\<lambda>id_val.
     and_then (py_strip (py_or (dget collection ''Internet'' PNone) (PStr []))) (\<lambda>site.
     and_then (py_strip (py_or (dget collection ''E-Mail-Adresse'' PNone) (PStr []))) (\<lambda>v_email.
     and_then (fix_number (dget collection ''Telefax'' (PStr []))) (\<lambda>v_fax.
     and_then (fix_number (dget collection ''Telefon'' (PStr []))) (\<lambda>v_phone.
       Inr (School\<lparr>
         name := v_name,
         school_id := PStr (''HB-'' @ py_str L id_val),
         address := v_address,
         school_zip := zip_code,
         city := v_city,
         website := py_or site PNone,
         email := v_email,
         fax := v_fax,
         phone := v_phone,
         director := v_director\<rparr>))))))))))"

text \<open>One round of the loop over the links of the list page.\<close>

definition bremen_link :: "pylib \<Rightarrow> web \<Rightarrow> html \<Rightarrow> exn + school list" where
  "bremen_link L web link =
     (let href = attr link ''href'' [] in
      if \<not> contains href ''Sid='' then Inr []
      else
        let sid = (if contains href ''de&Sid='' then last (split_sub1 ''de&Sid='' href) else []);
            detail_url = urljoin L bremen_list_url href
        in case web detail_url of
             Inl e \<Rightarrow> Inr []
           | Inr detail_resp \<Rightarrow>
               (let detail_soup = html_parse L (resp_text detail_resp);
                    lis = css_select L ''.kogis_main_visitenkarte ul li'' detail_soup
                in if lis = [] then Inr []
                   else
                     let name_elem = select_one L ''.main_article h3'' detail_soup;
                         collection = bremen_fields L lis
                           [(''id'', PStr (zfill 3 sid)),
                            (''name'', case name_elem of
                                         Some el \<Rightarrow> PStr (get_text_strip el)
                                       | None \<Rightarrow> PNone)]
                     in if \<not> truthy (dget collection ''name'' PNone) then Inr []
                        else and_then (bremen_school L collection) (\<lambda>sch. Inr [sch])))"

definition scrape_bremen :: "pylib \<Rightarrow> web \<Rightarrow> exn + school list" where
  "scrape_bremen L web =
     and_then (web bremen_list_url) (\<lambda>list_resp.
       let soup = html_parse L (resp_text list_resp);
           links = css_select L ''.table_daten_container a'' soup
       in and_then (for_each (bremen_link L web) links) (\<lambda>parts. Inr (concat parts)))"

subsection \<open>Hessen\<close>

definition hessen_base_url :: string where
  "hessen_base_url = ''https://schul-db.bildung.hessen.de/schul_db.html''"

text \<open>
  The \<open>href\<close>s a loop \<open>for a in ...: detail_urls.add(a["href"])\<close> has added when it ends
  or raises: those of the elements before the first one without the attribute.
\<close>

fun hrefs_added :: "html list \<Rightarrow> string list" where
  "hrefs_added [] = []"
| "hrefs_added (a # as) =
     (case attr_item a ''href'' of Inr h \<Rightarrow> h # hrefs_added as | Inl e \<Rightarrow> [])"

text \<open>The detail URLs one school type adds; the \<open>try\<close> ignores a failed search.\<close>

definition hessen_search :: "pylib \<Rightarrow> upstream \<Rightarrow> string \<Rightarrow> string \<Rightarrow> string list" where
  "hessen_search L U csrf_token st =
     (case session_post U hessen_base_url
             [(''school_name'', []), (''school_town'', []), (''school_zip'', []),
              (''school_number'', []), (''csrfmiddlewaretoken'', csrf_token),
              (''school_type'', st), (''submit_hesse'', ''Hessische+Schule+suchen+...'')] of
        Inl e \<Rightarrow> []
      | Inr search_resp \<Rightarrow>
          hrefs_added (css_select L ''tbody tr td a[href]''
                         (html_parse L (resp_text search_resp))))"

text \<open>\<open>extract_coords_from_osm_url\<close>.\<close>

definition extract_coords_from_osm_url :: "pylib \<Rightarrow> string \<Rightarrow> pyval \<times> pyval" where
  "extract_coords_from_osm_url L url =
     (case map_of (url_query L url) ''marker'' of
        None \<Rightarrow> (PNone, PNone)
      | Some [] \<Rightarrow> (PNone, PNone)
      | Some (m # _) \<Rightarrow>
          (case unpack2 (split1 (CHR '','') m) of
             Inl e \<Rightarrow> (PNone, PNone)
           | Inr (lat_str, lon_str) \<Rightarrow>
               (case float_of_str L lat_str of
                  None \<Rightarrow> (PNone, PNone)
                | Some lat \<Rightarrow>
                    (case float_of_str L lon_str of
                       None \<Rightarrow> (PNone, PNone)
                     | Some lon \<Rightarrow> (PFloat lat, PFloat lon)))))"

text \<open>The fax number: the last text node with a fax line decides.\<close>

definition hessen_fax :: "string list \<Rightarrow> pyval" where
  "hessen_fax text_nodes =
     foldl (\<lambda>v txt.
              if contains txt ''Fax: '' then
                (case filter (\<lambda>l. contains l ''Fax: '') (split_char (CHR 0x0A) txt) of
                   [] \<Rightarrow> v
                 | l # _ \<Rightarrow> PStr (strip (replace l ''Fax: '' [])))
              else v)
       PNone text_nodes"

text \<open>Phone and website from the links: \<open>(phone, website)\<close>, the last link of a kind decides.\<close>

definition hessen_links :: "html list \<Rightarrow> pyval \<times> pyval" where
  "hessen_links links =
     foldl (\<lambda>(v_phone, v_website) a.
              let href = attr a ''href'' [] in
              if contains href ''tel:'' then (PStr (replace href ''tel:'' []), v_website)
              else if contains href ''http'' then (v_phone, PStr href)
              else (v_phone, v_website))
       (PNone, PNone) links"

text \<open>One round of the loop over the detail pages.\<close>

definition hessen_detail :: "pylib \<Rightarrow> upstream \<Rightarrow> string \<Rightarrow> school list" where
  "hessen_detail L U detail_url =
     (case session_get U detail_url of
        Inl e \<Rightarrow> []
      | Inr detail_resp \<Rightarrow>
          (let detail_soup = html_parse L (resp_text detail_resp);
               pre_elems = css_select L ''pre'' detail_soup
           in if pre_elems = [] then []
              else
                let text_nodes = map get_text pre_elems;
                    address_lines = split_char (CHR 0x0A) (hd text_nodes)
                in if length address_lines < 4 then []
                   else
                     (case re_search L (''('' @ [CHR 0x5C] @ ''d+) (.+)'') (address_lines ! 3) of
                        None \<Rightarrow> []
                      | Some groups \<Rightarrow>
                          (let (v_phone, v_website) =
                                 hessen_links (css_select L ''pre a[href]'' detail_soup);
                               v_type = (case select_one L ''main .col-md-9.col-lg-9'' detail_soup of
                                           Some el \<Rightarrow> PStr (get_text_strip el)
                                         | None \<Rightarrow> PNone);
                               sid = last (split_char (CHR ''='') detail_url);
                               (lat0, lon0) =
                                 (case select_one L (''iframe[src*='' @ [CHR 0x22] @ ''openstreetmap.org'' @ [CHR 0x22] @ '']'') detail_soup of
                                    Some iframe \<Rightarrow>
                                      extract_coords_from_osm_url L (attr iframe ''src'' [])
                                  | None \<Rightarrow> (PNone, PNone));
                               (lat, lon) =
                                 (if lat0 = PFloat (- 1) \<and> lon0 = PFloat (- 1)
                                  then (PNone, PNone) else (lat0, lon0))
                           in [School\<lparr>
                                 name := PStr (strip (address_lines ! 1)),
                                 phone := v_phone,
                                 fax := hessen_fax text_nodes,
                                 website := v_website,
                                 address := PStr (strip (address_lines ! 2)),
                                 city := PStr (strip (groups ! 1)),
                                 school_zip := PStr (groups ! 0),
                                 school_type := v_type,
                                 school_id := PStr (''HE-'' @ sid),
                                 latitude := lat,
                                 longitude := lon\<rparr>]))))"

definition scrape_hessen :: "pylib \<Rightarrow> upstream \<Rightarrow> exn + school list" where
  "scrape_hessen L U =
     and_then (session_get U hessen_base_url) (\<lambda>list_resp.
       let soup = html_parse L (resp_text list_resp) in
     and_then (case select_one L (''input[name='' @ [CHR 0x22] @ ''csrfmiddlewaretoken'' @ [CHR 0x22] @ '']'') soup of
                 Some csrf \<Rightarrow> attr_item csrf ''value''
               | None \<Rightarrow> Inr []) (\<lambda>csrf_token.
     and_then (for_each (\<lambda>opt. if attr opt ''value'' [] \<noteq> []
                               then and_then (attr_item opt ''value'') (\<lambda>v. Inr [v])
                               else Inr [])
                 (css_select L ''#id_school_type option'' soup)) (\<lambda>type_values.
       let school_types = concat type_values;
           detail_urls = set_iter L (concat (map (hessen_search L U csrf_token) school_types))
       in Inr (concat (map (hessen_detail L U) detail_urls)))))"

subsection \<open>Rheinland-Pfalz\<close>

definition RP_SCHOOL_TYPES :: "(string \<times> string) list" where
  "RP_SCHOOL_TYPES =
     [(''BEA'', ''BEA''),
      (''BBS'', ''Berufsbildende Schule''),
      (''FWS'', ''Freie Waldorfschule''),
      (''GHS'', ''Grund- und Hauptschule (org. verbunden)''),
      (''GRS+'', ''Grund- und Realschule plus (org. verbunden)''),
      (''GS'', ''Grundschule''),
      (''GY'', ''Gymnasium''),
      (''HS'', ''Hauptschule''),
      (''IGS'', ''Integrierte Gesamtschule''),
      (''Koll'', ''Kolleg''),
      (''Koll/AGY'', ''Kolleg und Abendgymnasium (org.verbunden)''),
      (''RS'', ''Realschule''),
      (''RS+'', ''Realschule plus''),
      (''RS+FOS'', ''Realschule plus mit Fachoberschule''),
      (''StudSem'', ''Studienseminar'')]"

definition rheinland_pfalz_url :: string where
  "rheinland_pfalz_url =
     ''https://www.geoportal.rlp.de/spatial-objects/350''
     @ ''/collections/schulstandorte/items?f=json&limit=4000''"

text \<open>\<open>_parse_rlp_geoportal\<close>.\<close>

definition rlp_geoportal_school :: "pylib \<Rightarrow> pyval \<Rightarrow> exn + school" where
  "rlp_geoportal_school L f =
     and_then (as_dict f) (\<lambda>d.
       let v_name = py_or (dget d ''schulname'' PNone) (dget d ''name'' PNone);
           sid = py_or (dget d ''schulnummer'' PNone) (dget d ''OBJECTID'' PNone)
       in Inr (School\<lparr>
            name := v_name,
            school_id := PStr (''RP-'' @ py_str L sid),
            address := dget d ''strasse'' PNone,
            school_zip := dget d ''plz'' PNone,
            city := dget d ''ort'' PNone,
            school_type := py_or (dget d ''schulart'' PNone) (dget d ''schulform'' PNone),
            phone := dget d ''telefon'' PNone,
            fax := dget d ''telefax'' PNone,
            email := dget d ''email'' PNone,
            website := py_or (dget d ''internet'' PNone) (dget d ''homepage'' PNone),
            provider := dget d ''traeger'' PNone,
            latitude := dget d ''lat'' PNone,
            longitude := dget d ''lon'' PNone\<rparr>))"

definition parse_rlp_geoportal :: "pylib \<Rightarrow> pyval \<Rightarrow> exn + school list" where
  "parse_rlp_geoportal L data =
     and_then (parse_geojson_features data) (for_each (rlp_geoportal_school L))"

text \<open>The loop over the table rows of a detail page, which fills \<open>item\<close>.\<close>

fun rlp_rows :: "pylib \<Rightarrow> html list \<Rightarrow> (string \<times> pyval) list \<Rightarrow> (string \<times> pyval) list" where
  "rlp_rows L [] item = item"
| "rlp_rows L (row # rows) item =
     (case css_select L ''td'' row of
        [c0, c1] \<Rightarrow>
          (let key = replace (get_text_strip c0) '':'' [];
               value_parts = map strip (stripped_strings c1)
           in rlp_rows L rows
                (AList.update key
                   (case value_parts of [v] \<Rightarrow> PStr v | _ \<Rightarrow> PList (map PStr value_parts))
                   item))
      | _ \<Rightarrow> rlp_rows L rows item)"

text \<open>\<open>s.rstrip("/")\<close>.\<close>

definition rstrip_slash :: "string \<Rightarrow> string" where
  "rstrip_slash s = rev (dropWhile (\<lambda>c. c = CHR ''/'') (rev s))"

text \<open>
  The coordinates from the OpenStreetMap link: the \<open>try\<close> catches \<open>ValueError\<close> and
  \<open>IndexError\<close>, which leaves both \<open>None\<close>.
\<close>

definition rlp_osm_coordinates :: "pylib \<Rightarrow> string \<Rightarrow> pyval \<times> pyval" where
  "rlp_osm_coordinates L href =
     (let parts = split_char (CHR ''/'') (rstrip_slash href)
      in if length parts < 2 then (PNone, PNone)
         else case float_of_str L (parts ! (length parts - 2)) of
                None \<Rightarrow> (PNone, PNone)
              | Some lat \<Rightarrow>
                  (case float_of_str L (last parts) of
                     None \<Rightarrow> (PNone, PNone)
                   | Some lon \<Rightarrow> (PFloat lat, PFloat lon)))"

text \<open>Address, zip code and city from the entry \<open>Anschrift\<close>.\<close>

definition rlp_address :: "pyval \<Rightarrow> exn + (pyval \<times> pyval \<times> pyval)" where
  "rlp_address address_info =
     (case address_info of
        PList xs \<Rightarrow>
          (if length xs \<ge> 2 then
             and_then (case last xs of
                         PStr l \<Rightarrow> Inr (split1 (CHR '' '') l)
                       | v \<Rightarrow> Inl (no_attribute v ''split'')) (\<lambda>zip_city.
               Inr (xs ! 1, PStr (hd zip_city),
                    if length zip_city > 1 then PStr (zip_city ! 1) else PNone))
           else Inr (PNone, PNone, PNone))
      | _ \<Rightarrow> Inr (PNone, PNone, PNone))"

text \<open>The school type from the entry \<open>Kurzbezeichnung\<close>.\<close>

definition rlp_school_type :: "pyval \<Rightarrow> pyval" where
  "rlp_school_type kurz =
     (if truthy kurz then
        (let first_part = (case kurz of PStr k \<Rightarrow> hd (split_char (CHR '' '') k) | _ \<Rightarrow> [])
         in if startswith first_part ''SF'' then PStr (''F'' @ [CHR 0xF6] @ ''rderschule'')
            else case map_of RP_SCHOOL_TYPES first_part of
                   Some t \<Rightarrow> PStr t
                 | None \<Rightarrow> PNone)
      else PNone)"

text \<open>One round of the loop over the detail links of \<open>_scrape_rlp_html\<close>.\<close>

definition rlp_detail :: "pylib \<Rightarrow> upstream \<Rightarrow> string \<Rightarrow> exn + school list" where
  "rlp_detail L U link =
     (case session_get U link of
        Inl e \<Rightarrow> Inr []
      | Inr detail_resp \<Rightarrow>
          (case select_one L ''.rlp-schooldatabase-detail''
                  (html_parse L (resp_text detail_resp)) of
             None \<Rightarrow> Inr []
           | Some container \<Rightarrow>
               (let v_name = (case select_one L ''h1'' container of
                                Some h1 \<Rightarrow> PStr (get_text_strip h1)
                              | None \<Rightarrow> PNone);
                    item = rlp_rows L (css_select L ''tr'' container) [];
                    sid = dget item ''Schulnummer'' (PStr [])
                in
                and_then (case select_one L (''a[href*='' @ [CHR 0x22] @ ''openstreetmap''
                                               @ [CHR 0x22] @ '']'') container of
                            None \<Rightarrow> Inr (PNone, PNone)
                          | Some osm_link \<Rightarrow>
                              and_then (attr_item osm_link ''href'')
                                (\<lambda>href. Inr (rlp_osm_coordinates L href))) (\<lambda>(lat, lon).
                and_then (rlp_address (dget item ''Anschrift'' (PList []))) (\<lambda>(v_address, zip_code, v_city).
                and_then (py_replace (py_or (dget item ''E-Mail'' PNone) (PStr [])) ''(at)'' ''@'')
                  (\<lambda>v_email.
                  Inr [School\<lparr>
                    name := v_name,
                    school_id := PStr (''RP-'' @ py_str L sid),
                    address := v_address,
                    city := v_city,
                    school_zip := zip_code,
                    latitude := lat,
                    longitude := lon,
                    website := dget item ''Internet'' PNone,
                    email := PStr v_email,
                    provider := dget item (''Tr'' @ [CHR 0xE4] @ ''ger'') PNone,
                    fax := dget item ''Telefax'' PNone,
                    phone := dget item ''Telefon'' PNone,
                    school_type := rlp_school_type (dget item ''Kurzbezeichnung'' PNone)\<rparr>]))))))"

text \<open>\<open>_scrape_rlp_html\<close>.\<close>

definition scrape_rlp_html :: "pylib \<Rightarrow> upstream \<Rightarrow> exn + school list" where
  "scrape_rlp_html L U =
     and_then (session_get U ''https://bildung.rlp.de/schulen'') (\<lambda>list_resp.
     and_then (for_each (\<lambda>a. attr_item a ''href'')
                 (css_select L (''a[href*='' @ [CHR 0x22] @ ''einzelanzeige'' @ [CHR 0x22] @ '']'')
                    (html_parse L (resp_text list_resp)))) (\<lambda>hrefs.
     and_then (for_each (rlp_detail L U) (set_iter L hrefs)) (\<lambda>parts. Inr (concat parts))))"

text \<open>
  \<open>scrape_rheinland_pfalz\<close>: any exception of the GeoPortal path starts the HTML crawl.
\<close>

definition scrape_rheinland_pfalz :: "pylib \<Rightarrow> upstream \<Rightarrow> exn + school list" where
  "scrape_rheinland_pfalz L U =
     (case and_then (and_then (fetch_get U rheinland_pfalz_url) resp_json)
             (parse_rlp_geoportal L) of
        Inr schools \<Rightarrow> Inr schools
      | Inl e \<Rightarrow> scrape_rlp_html L U)"

section \<open>The registry\<close>

text \<open>
  \<open>SCRAPERS\<close> of runner.py: the sixteen scrapers under their state keys. The scrapers
  modelled above read their sources through the oracles \<open>U\<close>, so they do not change the
  world of the orchestrator.
\<close>

definition SCRAPERS :: "pylib \<Rightarrow> upstream \<Rightarrow> 'w registry" where
  "SCRAPERS L U =
     [(''baden-wuerttemberg'', \<lambda>w. (scrape_baden_wuerttemberg L (fetch_get U), w)),
      (''bayern'', \<lambda>w. (scrape_bayern L (fetch_get U), w)),
      (''berlin'', \<lambda>w. (scrape_berlin L (fetch_get U), w)),
      (''brandenburg'', \<lambda>w. (scrape_brandenburg L (fetch_get U), w)),
      (''bremen'', \<lambda>w. (scrape_bremen L (fetch_get U), w)),
      (''hamburg'', \<lambda>w. (scrape_hamburg L (fetch_get U), w)),
      (''hessen'', \<lambda>w. (scrape_hessen L U, w)),
      (''mecklenburg-vorpommern'', \<lambda>w. (scrape_mecklenburg_vorpommern L (fetch_get U), w)),
      (''niedersachsen'', \<lambda>w. (scrape_niedersachsen L U, w)),
      (''nordrhein-westfalen'', \<lambda>w. (scrape_nordrhein_westfalen L (fetch_get U), w)),
      (''rheinland-pfalz'', \<lambda>w. (scrape_rheinland_pfalz L U, w)),
      (''saarland'', \<lambda>w. (scrape_saarland L (fetch_get U), w)),
      (''sachsen'', \<lambda>w. (scrape_sachsen L (fetch_get U), w)),
      (''sachsen-anhalt'', \<lambda>w. (scrape_sachsen_anhalt L (fetch_get U), w)),
      (''schleswig-holstein'', \<lambda>w. (scrape_schleswig_holstein L (fetch_get U), w)),
      (''thueringen'', \<lambda>w. (scrape_thueringen L (fetch_get U), w))]"

text \<open>The fixed prefix of the identifiers of each region.\<close>

definition region_codes :: "(string \<times> string) list" where
  "region_codes =
     [(''baden-wuerttemberg'', ''BW''), (''bayern'', ''BY''), (''berlin'', ''BE''),
      (''brandenburg'', ''BB''), (''bremen'', ''HB''), (''hamburg'', ''HH''),
      (''hessen'', ''HE''), (''mecklenburg-vorpommern'', ''MV''), (''niedersachsen'', ''NI''),
      (''nordrhein-westfalen'', ''NW''), (''rheinland-pfalz'', ''RP''), (''saarland'', ''SL''),
      (''sachsen'', ''SN''), (''sachsen-anhalt'', ''ST''), (''schleswig-holstein'', ''SH''),
      (''thueringen'', ''TH'')]"

section \<open>Reference notions for the claims\<close>

text \<open>An attempt ends in a failure that \<open>fetch\<close> retries: a \<open>RequestException\<close>.\<close>

definition retryable :: "exn + response \<Rightarrow> bool" where
  "retryable x = (case x of Inl e \<Rightarrow> is_RequestException e | Inr r \<Rightarrow> False)"

text \<open>
  The text of the \<open>ValueError\<close> of \<open>scrape_state\<close> for the sixteen registered keys.
\<close>

definition unknown_state_message :: "string \<Rightarrow> string" where
  "unknown_state_message state =
     ''Unknown state '' @ [CHR 0x27] @ state @ [CHR 0x27] @ ''. Available: ''
       @ ''baden-wuerttemberg, bayern, berlin, brandenburg, bremen, hamburg, hessen, ''
       @ ''mecklenburg-vorpommern, niedersachsen, nordrhein-westfalen, rheinland-pfalz, ''
       @ ''saarland, sachsen, sachsen-anhalt, schleswig-holstein, thueringen''"

text \<open>The identifiers, and the coordinates \<open>(latitude, longitude)\<close>, of what a scraper returns.\<close>

definition identifiers :: "exn + school list \<Rightarrow> exn + pyval list" where
  "identifiers result =
     (case result of Inl e \<Rightarrow> Inl e | Inr schools \<Rightarrow> Inr (map school_id schools))"

definition coordinates :: "exn + school list \<Rightarrow> exn + (pyval \<times> pyval) list" where
  "coordinates result =
     (case result of
        Inl e \<Rightarrow> Inl e
      | Inr schools \<Rightarrow> Inr (map (\<lambda>r. (latitude r, longitude r)) schools))"

text \<open>
  The invariant of the specification on a pair \<open>(latitude, longitude)\<close>: a set latitude
  comes with a set longitude, and both are numbers within the bounds for Germany.
\<close>

definition in_bounds :: "real \<Rightarrow> real \<Rightarrow> pyval \<Rightarrow> bool" where
  "in_bounds lo hi v =
     (case v of
        PFloat x \<Rightarrow> lo \<le> x \<and> x \<le> hi
      | PInt i \<Rightarrow> lo \<le> of_int i \<and> of_int i \<le> hi
      | _ \<Rightarrow> False)"

definition plausible_pair :: "pyval \<times> pyval \<Rightarrow> bool" where
  "plausible_pair p =
     (case fst p of
        PNone \<Rightarrow> True
      | lat \<Rightarrow> in_bounds 47 55 lat \<and> in_bounds 5 15 (snd p))"

text \<open>An identifier that starts with a region code and a hyphen.\<close>

definition has_code :: "string \<Rightarrow> school \<Rightarrow> bool" where
  "has_code code r = (case school_id r of PStr s \<Rightarrow> startswith s (code @ ''-'') | _ \<Rightarrow> False)"

section \<open>Fixtures\<close>

text \<open>
  A registry of three scrapers that log their own call in the world: Berlin and Hamburg
  return one school each, Bayern raises.
\<close>

definition fixture_registry :: "string list registry" where
  "fixture_registry =
     [(''berlin'', \<lambda>w. (Inr [School\<lparr>school_id := PStr ''BE-01A01''\<rparr>], w @ [''berlin''])),
      (''bayern'', \<lambda>w. (Inl (Exn ValueError ''not enough values to unpack''), w @ [''bayern''])),
      (''hamburg'', \<lambda>w. (Inr [School\<lparr>school_id := PStr ''HH-5801''\<rparr>], w @ [''hamburg'']))]"

text \<open>A registry of the sixteen keys whose scrapers find nothing and log their call.\<close>

definition logging_registry :: "string list registry" where
  "logging_registry = map (\<lambda>k. (k, \<lambda>w. (Inr [], w @ [k]))) state_keys"

definition ok_response :: response where
  "ok_response = \<lparr>status_code = 200, status_error = [], resp_text = ''ok'',
      resp_content = ''ok'', resp_json = Inr PNone, set_cookie = None\<rparr>"

text \<open>A transport that refuses the first two connections, and one that always answers 500.\<close>

definition flaky_transport :: transport where
  "flaky_transport k url =
     (if k < 2 then Inl (Exn ConnectionError ''connection refused'') else Inr ok_response)"

definition down_transport :: transport where
  "down_transport k url =
     Inr (ok_response\<lparr>status_code := 500, status_error := ''500 Server Error''\<rparr>)"

definition net0 :: net where
  "net0 = \<lparr>calls = 0, slept = [], printed = []\<rparr>"

text \<open>
  A library for the fixtures: a \<open>float\<close> that knows four decimal strings, readers that
  find nothing, a projection that is the identity.
\<close>

definition fixture_lib :: pylib where
  "fixture_lib =
     \<lparr>str_other = (\<lambda>v. ''<object>''),
      float_of_str = map_of [(''54.32'', 5432 / 100), (''10.13'', 1013 / 100),
                             (''48.14'', 4814 / 100), (''11.57'', 1157 / 100)],
      int_of_str = (\<lambda>s. None),
      xmltodict_parse = (\<lambda>t. Inl (Exn ExpatError ''no element found'')),
      splitlines = (\<lambda>s. [s]),
      csv_DictReader = (\<lambda>ls c. Inr []),
      csv_reader = (\<lambda>ls c. Inr []),
      from_crs = (\<lambda>crs. None),
      transform = (\<lambda>crs x y. Inr (x, y)),
      decode_utf8 = Inr,
      unquote = (\<lambda>s. s),
      urljoin = (\<lambda>base href. href),
      url_query = (\<lambda>url. []),
      html_parse = Text,
      css_select = (\<lambda>css soup. []),
      re_findall = (\<lambda>pattern s. []),
      re_split = (\<lambda>pattern s. [s]),
      re_search = (\<lambda>pattern s. None),
      set_iter = remdups\<rparr>"

definition offline :: web where
  "offline url = Inl (Exn ConnectionError ''connection refused'')"

text \<open>
  Bayern: a WFS answer with two schools, the second with a position of one number.
\<close>

definition bayern_members :: pyval where
  "bayern_members =
     PDict [(''wfs:FeatureCollection'',
       PDict [(''wfs:member'',
         PList [PDict [(''schul:SchulstandorteGymnasien'',
                  PDict [(''@gml:id'', PStr ''gym.1''),
                         (''schul:schulname'', PStr ''Gymnasium A''),
                         (''schul:geometry'',
                            PDict [(''gml:Point'',
                              PDict [(''gml:pos'', PStr ''11.57 48.14'')])])])],
                PDict [(''schul:SchulstandorteGymnasien'',
                  PDict [(''@gml:id'', PStr ''gym.2''),
                         (''schul:schulname'', PStr ''Gymnasium B''),
                         (''schul:geometry'',
                            PDict [(''gml:Point'',
                              PDict [(''gml:pos'', PStr ''11.57'')])])])]])])]"

definition bayern_lib :: pylib where
  "bayern_lib = fixture_lib\<lparr>xmltodict_parse := (\<lambda>t. Inr bayern_members)\<rparr>"

definition bayern_web :: web where
  "bayern_web url = (if url = bayern_url then Inr ok_response else offline url)"

text \<open>Berlin: two features, the second without \<open>bsn\<close>.\<close>

definition keyless_berlin_data :: pyval where
  "keyless_berlin_data =
     PDict [(''features'',
       PList [PDict [(''properties'',
                       PDict [(''bsn'', PStr ''01A01''), (''schulname'', PStr ''Schule A'')]),
                     (''geometry'',
                       PDict [(''coordinates'', PList [PFloat (134 / 10), PFloat (525 / 10)])])],
              PDict [(''properties'', PDict [(''schulname'', PStr ''Schule B'')]),
                     (''geometry'',
                       PDict [(''coordinates'', PList [PFloat (135 / 10), PFloat (524 / 10)])])]])]"

definition keyless_berlin_web :: web where
  "keyless_berlin_web url =
     (if url = berlin_url then Inr (ok_response\<lparr>resp_json := Inr keyless_berlin_data\<rparr>)
      else offline url)"

text \<open>Berlin: one feature far from Germany.\<close>

definition far_feature :: pyval where
  "far_feature =
     PDict [(''properties'', PDict [(''bsn'', PStr ''01A01'')]),
            (''geometry'', PDict [(''coordinates'', PList [PInt 200, PInt 300])])]"

definition far_berlin_web :: web where
  "far_berlin_web url =
     (if url = berlin_url then
        Inr (ok_response\<lparr>resp_json := Inr (PDict [(''features'', PList [far_feature])])\<rparr>)
      else offline url)"

text \<open>Schleswig-Holstein: one row with a latitude and an empty longitude.\<close>

definition sh_rows :: "pyval list" where
  "sh_rows = [PDict [(''id'', PStr ''0705021''), (''name'', PStr ''Schule am Meer''),
                     (''latitude'', PStr ''54.32''), (''longitude'', PStr [])]]"

definition sh_lib :: pylib where
  "sh_lib = fixture_lib\<lparr>csv_DictReader := (\<lambda>ls c. Inr sh_rows)\<rparr>"

definition sh_web :: web where
  "sh_web url = (if url = schleswig_holstein_url then Inr ok_response else offline url)"

text \<open>Sachsen: the list of schools answers, the table of school types does not.\<close>

definition sachsen_schools :: pyval where
  "sachsen_schools = PList [PDict [(''id'', PInt 4310), (''name'', PStr ''Oberschule'')]]"

definition sachsen_types_down :: web where
  "sachsen_types_down url =
     (if url = sachsen_url then Inr (ok_response\<lparr>resp_json := Inr sachsen_schools\<rparr>)
      else offline url)"

text \<open>Nordrhein-Westfalen: the school data answer, the key tables do not.\<close>

definition nrw_lib :: pylib where
  "nrw_lib = fixture_lib\<lparr>csv_DictReader :=
     (\<lambda>ls c. Inr [PDict [(''Schulnummer'', PStr ''100001''), (''Schulform'', PStr ''02'')]])\<rparr>"

definition nrw_tables_down :: web where
  "nrw_tables_down url = (if url = nrw_url then Inr ok_response else offline url)"

section \<open>Strings\<close>

lemma is_space_lower_char: "is_space (lower_char c) = is_space c"
  unfolding is_space_def lower_char_def Let_def by auto

lemma lower_dropWhile: "dropWhile is_space (lower s) = lower (dropWhile is_space s)"
  unfolding lower_def by (induction s) (auto simp: is_space_lower_char)

lemma lower_rev: "rev (lower s) = lower (rev s)"
  unfolding lower_def by (simp add: rev_map)

lemma strip_lower: "strip (lower s) = lower (strip s)"
  unfolding strip_def lstrip_def rstrip_def by (simp add: lower_dropWhile lower_rev)

lemma sort_state_keys: "sort state_keys = state_keys"
  unfolding state_keys_def by code_simp

lemma normal_state_keys: "map (\<lambda>s. strip (lower s)) state_keys = state_keys"
  unfolding state_keys_def by code_simp

section \<open>The orchestrator\<close>

lemma report_Nil [simp]: "report [] al = al"
  by (simp add: report_def)

lemma report_Cons [simp]: "report ((k, e) # fs) al = report fs (AList.update k (exn_msg e) al)"
  by (simp add: report_def)

lemma report_keys: "fst ` set (report fs al) = fst ` set al \<union> fst ` set fs"
proof (induction fs arbitrary: al)
  case Nil
  then show ?case by simp
next
  case (Cons f fs)
  obtain k e where f: "f = (k, e)" by (cases f)
  have "fst ` set (report (f # fs) al)
          = fst ` set (AList.update k (exn_msg e) al) \<union> fst ` set fs"
    using Cons.IH [of "AList.update k (exn_msg e) al"] f by simp
  also have "\<dots> = insert k (fst ` set al) \<union> fst ` set fs"
    by (simp add: AList.dom_update)
  finally show ?case using f by auto
qed

lemma report_values:
  "map_of (report fs al) k = Some m \<Longrightarrow>
     map_of al k = Some m \<or> (\<exists>e. (k, e) \<in> set fs \<and> m = exn_msg e)"
proof (induction fs arbitrary: al)
  case Nil
  then show ?case by simp
next
  case (Cons f fs)
  obtain k' e' where f: "f = (k', e')" by (cases f)
  from Cons.IH [of "AList.update k' (exn_msg e') al"] Cons.prems f
  show ?case by (auto simp: AList.update_conv' split: if_splits)
qed

lemma report_nonempty: "fs \<noteq> [] \<Longrightarrow> report fs al \<noteq> []"
  using report_keys [of fs al] by (cases fs) auto

text \<open>Under any policy but \<open>raise\<close> the loop runs to its end.\<close>

lemma scrape_loop_skip:
  assumes "on_error \<noteq> ''raise''"
  shows "\<exists>st'. scrape_loop scrapers on_error targets st = (None, st')
           \<and> all_schools st' = all_schools st @ gathered (attempts scrapers targets (world st))
           \<and> errors st' = report (failures (attempts scrapers targets (world st))) (errors st)
           \<and> world st' = world_after scrapers targets (world st)"
  using assms
proof (induction targets arbitrary: st)
  case Nil
  then show ?case by simp
next
  case (Cons state targets)
  let ?key = "strip (lower state)"
  show ?case
  proof (cases "map_of scrapers ?key")
    case None
    with Cons.IH [OF Cons.prems, of "st\<lparr>out := out st @ [Warning_unknown state]\<rparr>"]
    show ?thesis by (simp add: Let_def)
  next
    case (Some scraper)
    obtain r w' where sw: "scraper (world st) = (r, w')"
      by (cases "scraper (world st)")
    show ?thesis
    proof (cases r)
      case (Inl e)
      with Some sw Cons.prems
        Cons.IH [OF Cons.prems,
          of "st\<lparr>errors := AList.update ?key (exn_msg e) (errors st),
                 out := out st @ [Scraping ?key, Failed ?key (exn_msg e)],
                 world := w'\<rparr>"]
      show ?thesis by (simp add: Let_def)
    next
      case (Inr schools)
      with Some sw
        Cons.IH [OF Cons.prems,
          of "st\<lparr>all_schools := all_schools st @ schools,
                 out := out st @ [Scraping ?key, Scraped ?key (length schools)],
                 world := w'\<rparr>"]
      show ?thesis by (simp add: Let_def)
    qed
  qed
qed

text \<open>A list of regions is processed one part after the other.\<close>

lemma scrape_loop_append:
  "scrape_loop scrapers on_error (xs @ ys) st =
     (case scrape_loop scrapers on_error xs st of
        (None, st1) \<Rightarrow> scrape_loop scrapers on_error ys st1
      | (Some e, st1) \<Rightarrow> (Some e, st1))"
proof (induction xs arbitrary: st)
  case Nil
  then show ?case by simp
next
  case (Cons x xs)
  show ?case
    by (simp add: Cons.IH Let_def split: option.splits prod.splits sum.splits)
qed

text \<open>While no scraper raises, the error policy makes no difference.\<close>

lemma scrape_loop_no_failure:
  "failures (attempts scrapers targets (world st)) = [] \<Longrightarrow>
   \<exists>st'. scrape_loop scrapers on_error targets st = (None, st')
         \<and> all_schools st' = all_schools st @ gathered (attempts scrapers targets (world st))
         \<and> errors st' = errors st
         \<and> world st' = world_after scrapers targets (world st)"
proof (induction targets arbitrary: st)
  case Nil
  then show ?case by simp
next
  case (Cons state targets)
  let ?key = "strip (lower state)"
  show ?case
  proof (cases "map_of scrapers ?key")
    case None
    with Cons.prems Cons.IH [of "st\<lparr>out := out st @ [Warning_unknown state]\<rparr>"]
    show ?thesis by (simp add: Let_def)
  next
    case (Some scraper)
    obtain r w' where sw: "scraper (world st) = (r, w')"
      by (cases "scraper (world st)")
    show ?thesis
    proof (cases r)
      case (Inl e)
      with Some sw Cons.prems show ?thesis by simp
    next
      case (Inr schools)
      with Some sw Cons.prems
        Cons.IH [of "st\<lparr>all_schools := all_schools st @ schools,
                      out := out st @ [Scraping ?key, Scraped ?key (length schools)],
                      world := w'\<rparr>"]
      show ?thesis by (simp add: Let_def)
    qed
  qed
qed

lemma attempts_append:
  "attempts scrapers (xs @ ys) w
     = attempts scrapers xs w @ attempts scrapers ys (world_after scrapers xs w)"
  by (induction xs arbitrary: w) (auto split: option.splits prod.splits)

lemma gathered_append: "gathered (xs @ ys) = gathered xs @ gathered ys"
  by (induction xs rule: gathered.induct) auto

lemma failures_append: "failures (xs @ ys) = failures xs @ failures ys"
  by (induction xs rule: failures.induct) auto

lemma attempts_all_known:
  "\<forall>s \<in> set targets. map_of scrapers (strip (lower s)) \<noteq> None \<Longrightarrow>
   map fst (attempts scrapers targets w) = map (\<lambda>s. strip (lower s)) targets"
  by (induction targets arbitrary: w) (auto split: option.splits prod.splits)

lemma requested_targets:
  "(case states of None \<Rightarrow> map fst scrapers | Some [] \<Rightarrow> map fst scrapers | Some ts \<Rightarrow> ts)
     = requested scrapers states"
  by (simp add: requested_def split: option.splits list.splits)

text \<open>
  Claim C1. With \<open>on_error = "skip"\<close>, \<open>scrape_all\<close> returns for every registry, every list
  of requested keys and every behaviour of the scrapers: it never raises. The list it
  returns is the concatenation, in request order, of what the scrapers that returned have
  found. The dict \<open>errors\<close> is the report of the scrapers that raised: its keys are exactly
  the keys of the regions that failed, each mapped to the text of a failure of that region,
  and if a region failed it is not empty and the summary line naming its keys is printed.
\<close>

theorem scrape_all_skip_never_raises:
  "\<exists>st. scrape_all scrapers states ''skip'' w
           = (Inr (gathered (attempts scrapers (requested scrapers states) w)), st)
       \<and> errors st = report (failures (attempts scrapers (requested scrapers states) w)) []
       \<and> fst ` set (errors st)
           = fst ` set (failures (attempts scrapers (requested scrapers states) w))
       \<and> (\<forall>k m. map_of (errors st) k = Some m \<longrightarrow>
             (\<exists>e. (k, e) \<in> set (failures (attempts scrapers (requested scrapers states) w))
                  \<and> m = exn_msg e))
       \<and> (failures (attempts scrapers (requested scrapers states) w) \<noteq> [] \<longrightarrow>
             errors st \<noteq> []
             \<and> Errors_in (length (errors st)) (map fst (errors st)) \<in> set (out st))"
proof -
  let ?ts = "requested scrapers states"
  let ?st0 = "\<lparr>all_schools = [], errors = [], out = [], world = w\<rparr>"
  have ne: "''skip'' \<noteq> ''raise''" by simp
  from scrape_loop_skip [OF ne, of scrapers ?ts ?st0]
  obtain st' where l: "scrape_loop scrapers ''skip'' ?ts ?st0 = (None, st')"
    and a: "all_schools st' = gathered (attempts scrapers ?ts w)"
    and e: "errors st' = report (failures (attempts scrapers ?ts w)) []"
    by auto
  let ?st = "st'\<lparr>out := out st'
                   @ [Total (length (all_schools st'))
                        (int (length ?ts) - int (length (errors st')))]
                   @ (if errors st' \<noteq> [] then
                        [Errors_in (length (errors st')) (map fst (errors st'))]
                      else [])\<rparr>"
  have r: "scrape_all scrapers states ''skip'' w
             = (Inr (gathered (attempts scrapers ?ts w)), ?st)"
    unfolding scrape_all_def requested_targets Let_def l using a by simp
  have e': "errors ?st = report (failures (attempts scrapers ?ts w)) []"
    using e by simp
  have k: "fst ` set (errors ?st) = fst ` set (failures (attempts scrapers ?ts w))"
    unfolding e' by (simp add: report_keys)
  have v: "\<forall>k m. map_of (errors ?st) k = Some m \<longrightarrow>
             (\<exists>e. (k, e) \<in> set (failures (attempts scrapers ?ts w)) \<and> m = exn_msg e)"
    unfolding e' using report_values [of "failures (attempts scrapers ?ts w)" "[]"] by auto
  have n: "failures (attempts scrapers ?ts w) \<noteq> [] \<longrightarrow>
             errors ?st \<noteq> []
             \<and> Errors_in (length (errors ?st)) (map fst (errors ?st)) \<in> set (out ?st)"
    using report_nonempty [of "failures (attempts scrapers ?ts w)" "[]"] e by simp
  from r e' k v n show ?thesis by blast
qed

lemma fixture_attempts:
  "attempts fixture_registry
      (requested fixture_registry (Some [''Berlin '', ''atlantis'', ''bayern''])) []
     = [(''berlin'', Inr [School\<lparr>school_id := PStr ''BE-01A01''\<rparr>]),
        (''bayern'', Inl (Exn ValueError ''not enough values to unpack''))]"
  by code_simp

theorem scrape_all_skip_never_raises_witness:
  "failures (attempts fixture_registry
       (requested fixture_registry (Some [''Berlin '', ''atlantis'', ''bayern''])) []) \<noteq> []
   \<and> (\<exists>st. scrape_all fixture_registry (Some [''Berlin '', ''atlantis'', ''bayern'']) ''skip'' []
              = (Inr [School\<lparr>school_id := PStr ''BE-01A01''\<rparr>], st)
          \<and> errors st = [(''bayern'', ''not enough values to unpack'')])"
  using scrape_all_skip_never_raises
    [of fixture_registry "Some [''Berlin '', ''atlantis'', ''bayern'']" "[]"]
  unfolding fixture_attempts by auto

lemma scrape_all_requested:
  "requested scrapers s1 = requested scrapers s2 \<Longrightarrow>
   scrape_all scrapers s1 on_error w = scrape_all scrapers s2 on_error w"
  unfolding scrape_all_def requested_targets by simp

lemma registry_known:
  "map fst scrapers = state_keys \<Longrightarrow>
   \<forall>s \<in> set state_keys. map_of scrapers (strip (lower s)) \<noteq> None"
proof
  fix s
  assume m: "map fst scrapers = state_keys" and s: "s \<in> set state_keys"
  have "strip (lower s) \<in> set (map (\<lambda>s. strip (lower s)) state_keys)"
    using s by simp
  then have "strip (lower s) \<in> set state_keys"
    unfolding normal_state_keys .
  then have "strip (lower s) \<in> fst ` set scrapers"
    using m by (metis set_map)
  then show "map_of scrapers (strip (lower s)) \<noteq> None"
    by (simp add: map_of_eq_None_iff)
qed

text \<open>
  Claim C10. \<open>scrape_all(states=[])\<close> is \<open>scrape_all(states=None)\<close> under every error
  policy: the empty list is falsy, so the targets are the keys of the registry. With the
  sixteen keys registered the call is the one that names all sixteen, and each of them is
  looked up and its scraper attempted.
\<close>

theorem scrape_all_empty_list_is_all:
  "scrape_all scrapers (Some []) on_error w = scrape_all scrapers None on_error w
   \<and> (map fst scrapers = state_keys \<longrightarrow>
        scrape_all scrapers (Some []) on_error w
          = scrape_all scrapers (Some state_keys) on_error w
        \<and> map fst (attempts scrapers (requested scrapers (Some [])) w) = state_keys)"
proof -
  have 1: "scrape_all scrapers (Some []) on_error w = scrape_all scrapers None on_error w"
    by (simp add: scrape_all_def)
  have 2: "scrape_all scrapers (Some []) on_error w
             = scrape_all scrapers (Some state_keys) on_error w"
    if m: "map fst scrapers = state_keys"
  proof -
    have "state_keys \<noteq> []" by (simp add: state_keys_def)
    then have "requested scrapers (Some []) = requested scrapers (Some state_keys)"
      by (simp add: requested_def m)
    then show ?thesis by (rule scrape_all_requested)
  qed
  have 3: "map fst (attempts scrapers (requested scrapers (Some [])) w) = state_keys"
    if m: "map fst scrapers = state_keys"
    using attempts_all_known [OF registry_known [OF m], of w]
    by (simp add: requested_def m normal_state_keys)
  from 1 2 3 show ?thesis by blast
qed

lemma logging_keys: "map fst logging_registry = state_keys"
  by (simp add: logging_registry_def comp_def)

lemma logging_run:
  "world (snd (scrape_all logging_registry (Some state_keys) ''skip'' [])) = state_keys"
  by code_simp

theorem scrape_all_empty_list_is_all_witness:
  "map fst logging_registry = state_keys
   \<and> scrape_all logging_registry (Some []) ''skip'' []
       = scrape_all logging_registry None ''skip'' []
   \<and> world (snd (scrape_all logging_registry (Some []) ''skip'' [])) = state_keys
   \<and> length (attempts logging_registry (requested logging_registry (Some [])) []) = 16"
proof -
  from scrape_all_empty_list_is_all [of logging_registry "''skip''" "[]"] logging_keys
  have a: "scrape_all logging_registry (Some []) ''skip'' []
             = scrape_all logging_registry None ''skip'' []"
    and b: "scrape_all logging_registry (Some []) ''skip'' []
             = scrape_all logging_registry (Some state_keys) ''skip'' []"
    and c: "map fst (attempts logging_registry (requested logging_registry (Some [])) [])
             = state_keys"
    by blast+
  have "length (map fst (attempts logging_registry (requested logging_registry (Some [])) []))
          = 16"
    unfolding c by (simp add: state_keys_def)
  then show ?thesis using a b logging_keys logging_run by simp
qed

lemma scrape_loop_raise_here:
  assumes "map_of scrapers (strip (lower s)) = Some scraper"
    and "scraper (world st) = (Inl e, w')"
  shows "scrape_loop scrapers ''raise'' (s # post) st =
           (Some e, st\<lparr>errors := AList.update (strip (lower s)) (exn_msg e) (errors st),
                       out := out st @ [Scraping (strip (lower s)), Failed (strip (lower s)) (exn_msg e)],
                       world := w'\<rparr>)"
  using assms by (simp add: Let_def)

text \<open>
  Claim C4. Let the regions before \<open>s\<close> in the request all return and let the scraper of
  \<open>s\<close> raise \<open>e\<close>, leaving the world \<open>w'\<close>. With \<open>on_error = "raise"\<close> the batch raises \<open>e\<close>
  itself, the world is left as that scraper left it, and the outcome is the one of the
  request cut after \<open>s\<close>: no later region is attempted. With \<open>on_error = "skip"\<close> the batch
  returns the records of the regions before and after \<open>s\<close> and nothing for \<open>s\<close>, and the
  failure is recorded under the key of \<open>s\<close>.
\<close>

theorem scrape_all_error_policy:
  assumes pre: "failures (attempts scrapers pre w) = []"
    and known: "map_of scrapers (strip (lower s)) = Some scraper"
    and fails: "scraper (world_after scrapers pre w) = (Inl e, w')"
  shows "(\<exists>st. scrape_all scrapers (Some (pre @ s # post)) ''raise'' w = (Inl e, st)
              \<and> world st = w')
       \<and> scrape_all scrapers (Some (pre @ s # post)) ''raise'' w
           = scrape_all scrapers (Some (pre @ [s])) ''raise'' w
       \<and> (\<exists>st. scrape_all scrapers (Some (pre @ s # post)) ''skip'' w
                  = (Inr (gathered (attempts scrapers pre w)
                          @ gathered (attempts scrapers post w')), st)
              \<and> errors st = report (failures (attempts scrapers post w'))
                                [(strip (lower s), exn_msg e)]
              \<and> strip (lower s) \<in> fst ` set (errors st))"
proof -
  let ?key = "strip (lower s)"
  let ?st0 = "\<lparr>all_schools = [], errors = [], out = [], world = w\<rparr>"
  from scrape_loop_no_failure [of scrapers pre ?st0 "''raise''"] pre
  obtain st1 where l1: "scrape_loop scrapers ''raise'' pre ?st0 = (None, st1)"
    and w1: "world st1 = world_after scrapers pre w"
    by auto
  let ?st2 = "st1\<lparr>errors := AList.update ?key (exn_msg e) (errors st1),
                   out := out st1 @ [Scraping ?key, Failed ?key (exn_msg e)],
                   world := w'\<rparr>"
  have l2: "scrape_loop scrapers ''raise'' (s # rest) st1 = (Some e, ?st2)" for rest
    using scrape_loop_raise_here [OF known, of st1 e w' rest] fails w1 by simp
  have l: "scrape_loop scrapers ''raise'' (pre @ s # rest) ?st0 = (Some e, ?st2)" for rest
    unfolding scrape_loop_append l1 using l2 [of rest] by simp
  have t: "requested scrapers (Some (pre @ s # rest)) = pre @ s # rest" for rest
    by (simp add: requested_def)
  have r: "scrape_all scrapers (Some (pre @ s # rest)) ''raise'' w = (Inl e, ?st2)" for rest
    unfolding scrape_all_def requested_targets t Let_def l by simp
  have A: "\<exists>st. scrape_all scrapers (Some (pre @ s # post)) ''raise'' w = (Inl e, st) \<and> world st = w'"
    using r [of post] by simp
  have B: "scrape_all scrapers (Some (pre @ s # post)) ''raise'' w
           = scrape_all scrapers (Some (pre @ [s])) ''raise'' w"
    using r [of post] r [of "[]"] by simp
  have ne: "''skip'' \<noteq> ''raise''" by simp
  let ?ts = "pre @ s # post"
  have att: "attempts scrapers ?ts w
      = attempts scrapers pre w @ (?key, Inl e) # attempts scrapers post w'"
    unfolding attempts_append using known fails by simp
  from scrape_loop_skip [OF ne, of scrapers ?ts ?st0]
  obtain st' where k: "scrape_loop scrapers ''skip'' ?ts ?st0 = (None, st')"
    and a: "all_schools st' = gathered (attempts scrapers ?ts w)"
    and er: "errors st' = report (failures (attempts scrapers ?ts w)) []"
    by auto
  have a': "all_schools st' = gathered (attempts scrapers pre w) @ gathered (attempts scrapers post w')"
    unfolding a att by (simp add: gathered_append)
  have er': "errors st' = report (failures (attempts scrapers post w')) [(?key, exn_msg e)]"
    unfolding er att by (simp add: failures_append pre)
  have mem: "?key \<in> fst ` set (errors st')"
    unfolding er' report_keys by simp
  let ?st = "st'\<lparr>out := out st'
                   @ [Total (length (all_schools st'))
                        (int (length ?ts) - int (length (errors st')))]
                   @ (if errors st' \<noteq> [] then
                        [Errors_in (length (errors st')) (map fst (errors st'))]
                      else [])\<rparr>"
  have "scrape_all scrapers (Some ?ts) ''skip'' w
          = (Inr (gathered (attempts scrapers pre w) @ gathered (attempts scrapers post w')), ?st)"
    unfolding scrape_all_def requested_targets t Let_def k using a' by simp
  moreover have "errors ?st = report (failures (attempts scrapers post w')) [(?key, exn_msg e)]"
    using er' by simp
  moreover have "?key \<in> fst ` set (errors ?st)" using mem by simp
  ultimately have C: "\<exists>st. scrape_all scrapers (Some ?ts) ''skip'' w
                  = (Inr (gathered (attempts scrapers pre w)
                          @ gathered (attempts scrapers post w')), st)
              \<and> errors st = report (failures (attempts scrapers post w'))
                                [(?key, exn_msg e)]
              \<and> ?key \<in> fst ` set (errors st)"
    by blast
  from A B C show ?thesis by blast
qed

lemma fixture_bayern_key: "strip (lower '' Bayern'') = ''bayern''"
  by code_simp

lemma fixture_bayern_scraper:
  "map_of fixture_registry (strip (lower '' Bayern'')) = Some (snd (fixture_registry ! 1))"
  unfolding fixture_bayern_key by (simp add: fixture_registry_def)

lemma fixture_policy_runs:
  "failures (attempts fixture_registry [''berlin''] []) = []"
  "snd (fixture_registry ! 1) (world_after fixture_registry [''berlin''] [])
     = (Inl (Exn ValueError ''not enough values to unpack''), [''berlin'', ''bayern''])"
  "attempts fixture_registry [''berlin''] []
     = [(''berlin'', Inr [School\<lparr>school_id := PStr ''BE-01A01''\<rparr>])]"
  "attempts fixture_registry [''hamburg''] [''berlin'', ''bayern'']
     = [(''hamburg'', Inr [School\<lparr>school_id := PStr ''HH-5801''\<rparr>])]"
  by code_simp+

theorem scrape_all_error_policy_witness:
  "(\<exists>st. scrape_all fixture_registry (Some [''berlin'', '' Bayern'', ''hamburg'']) ''raise'' []
            = (Inl (Exn ValueError ''not enough values to unpack''), st)
        \<and> world st = [''berlin'', ''bayern''])
   \<and> (\<exists>st. scrape_all fixture_registry (Some [''berlin'', '' Bayern'', ''hamburg'']) ''skip'' []
            = (Inr [School\<lparr>school_id := PStr ''BE-01A01''\<rparr>, School\<lparr>school_id := PStr ''HH-5801''\<rparr>], st)
        \<and> errors st = [(''bayern'', ''not enough values to unpack'')])"
proof -
  note p = scrape_all_error_policy [of fixture_registry "[''berlin'']" "[]" "'' Bayern''",
      OF fixture_policy_runs(1) fixture_bayern_scraper fixture_policy_runs(2), of "[''hamburg'']"]
  from p have a: "\<exists>st. scrape_all fixture_registry (Some ([''berlin''] @ '' Bayern'' # [''hamburg''])) ''raise'' []
            = (Inl (Exn ValueError ''not enough values to unpack''), st)
        \<and> world st = [''berlin'', ''bayern'']"
    by blast
  from p have c: "\<exists>st. scrape_all fixture_registry (Some ([''berlin''] @ '' Bayern'' # [''hamburg''])) ''skip'' []
            = (Inr (gathered (attempts fixture_registry [''berlin''] [])
                    @ gathered (attempts fixture_registry [''hamburg''] [''berlin'', ''bayern''])), st)
        \<and> errors st = report (failures (attempts fixture_registry [''hamburg''] [''berlin'', ''bayern'']))
                          [(strip (lower '' Bayern''), exn_msg (Exn ValueError ''not enough values to unpack''))]"
    by blast
  from a c show ?thesis unfolding fixture_policy_runs fixture_bayern_key by simp
qed

lemma join_state_keys:
  "join '', '' state_keys =
    ''baden-wuerttemberg, bayern, berlin, brandenburg, bremen, hamburg, hessen, ''
       @ ''mecklenburg-vorpommern, niedersachsen, nordrhein-westfalen, rheinland-pfalz, ''
       @ ''saarland, sachsen, sachsen-anhalt, schleswig-holstein, thueringen''"
  unfolding state_keys_def by simp

lemma join_contains: "k \<in> set ks \<Longrightarrow> \<exists>a b. join sep ks = a @ k @ b"
proof (induction sep ks rule: join.induct)
  case (1 sep)
  then show ?case by simp
next
  case (2 sep x)
  then have "join sep [x] = [] @ k @ []" by simp
  then show ?case by blast
next
  case (3 sep x y ys)
  show ?case
  proof (cases "k = x")
    case True
    then have "join sep (x # y # ys) = [] @ k @ (sep @ join sep (y # ys))" by simp
    then show ?thesis by blast
  next
    case False
    with 3 obtain a b where "join sep (y # ys) = a @ k @ b" by auto
    then have "join sep (x # y # ys) = (x @ sep @ a) @ k @ b" by simp
    then show ?thesis by blast
  qed
qed

text \<open>
  Claim C3. \<open>scrape_state\<close> looks the key \<open>state.lower().strip()\<close> up, which is the
  lower-cased trimmed input. When the key is registered, the call is the call of the
  registered scraper: its result, a list or an exception, is returned as it is, and every
  input with the same normal form gives the same call. When the sixteen keys are
  registered and the normal form of the input is none of them, \<open>scrape_state\<close> raises a
  \<open>ValueError\<close> whose message names the input and lists all sixteen keys.
\<close>

theorem scrape_state_lookup:
  "strip (lower s) = lower (strip s)
   \<and> (\<forall>scraper. map_of scrapers (lower (strip s)) = Some scraper \<longrightarrow>
         scrape_state scrapers s w = scraper w
         \<and> (\<forall>s'. lower (strip s') = lower (strip s) \<longrightarrow>
               scrape_state scrapers s' w = scrape_state scrapers s w))
   \<and> (map fst scrapers = state_keys \<and> lower (strip s) \<notin> set state_keys \<longrightarrow>
         scrape_state scrapers s w = (Inl (Exn ValueError (unknown_state_message s)), w)
         \<and> (\<forall>k \<in> set state_keys. \<exists>a b. unknown_state_message s = a @ k @ b))"
proof -
  have 1: "strip (lower s) = lower (strip s)" by (rule strip_lower)
  have 2: "scrape_state scrapers s' w = scraper w"
    if "map_of scrapers (lower (strip s)) = Some scraper" "lower (strip s') = lower (strip s)"
    for scraper s'
    using that by (simp add: scrape_state_def strip_lower)
  have 3: "scrape_state scrapers s w = (Inl (Exn ValueError (unknown_state_message s)), w)"
    if m: "map fst scrapers = state_keys" and n: "lower (strip s) \<notin> set state_keys"
  proof -
    have "lower (strip s) \<notin> fst ` set scrapers" using m n by (metis set_map)
    then have "map_of scrapers (strip (lower s)) = None"
      by (simp add: map_of_eq_None_iff strip_lower)
    then show ?thesis
      by (simp add: scrape_state_def m sort_state_keys join_state_keys unknown_state_message_def)
  qed
  have 4: "\<forall>k \<in> set state_keys. \<exists>a b. unknown_state_message s = a @ k @ b"
  proof
    fix k assume "k \<in> set state_keys"
    from join_contains [OF this, of "'', ''"] obtain a b
      where "join '', '' state_keys = a @ k @ b" by blast
    then have "unknown_state_message s
        = (''Unknown state '' @ [CHR 0x27] @ s @ [CHR 0x27] @ ''. Available: '' @ a) @ k @ b"
      unfolding unknown_state_message_def join_state_keys [symmetric] by simp
    then show "\<exists>a b. unknown_state_message s = a @ k @ b" by blast
  qed
  have d2: "\<forall>scraper. map_of scrapers (lower (strip s)) = Some scraper \<longrightarrow>
         scrape_state scrapers s w = scraper w
         \<and> (\<forall>s'. lower (strip s') = lower (strip s) \<longrightarrow>
               scrape_state scrapers s' w = scrape_state scrapers s w)"
  proof (intro allI impI conjI)
    fix scraper s'
    assume m: "map_of scrapers (lower (strip s)) = Some scraper"
    show "scrape_state scrapers s w = scraper w" using 2 [OF m refl] .
    assume h: "lower (strip s') = lower (strip s)"
    show "scrape_state scrapers s' w = scrape_state scrapers s w"
      using 2 [OF m h] 2 [OF m refl] by simp
  qed
  from 3 4 have d3: "map fst scrapers = state_keys \<and> lower (strip s) \<notin> set state_keys \<longrightarrow>
         scrape_state scrapers s w = (Inl (Exn ValueError (unknown_state_message s)), w)
         \<and> (\<forall>k \<in> set state_keys. \<exists>a b. unknown_state_message s = a @ k @ b)"
    by simp
  from 1 d2 d3 show ?thesis by (intro conjI)
qed


lemma fixture_state_names:
  "lower (strip ''BERLIN '') = ''berlin''"
  "lower (strip ''berlin'') = ''berlin''"
  "lower (strip ''atlantis'') = ''atlantis''"
  by code_simp+

lemma logging_berlin:
  "map_of logging_registry (lower (strip ''BERLIN '')) = Some (\<lambda>w. (Inr [], w @ [''berlin'']))"
  "lower (strip ''berlin'') = lower (strip ''BERLIN '')"
  "lower (strip ''atlantis'') \<notin> set state_keys"
  unfolding fixture_state_names by (simp_all add: logging_registry_def state_keys_def)

theorem scrape_state_lookup_witness:
  "scrape_state logging_registry ''BERLIN '' [] = (Inr [], [''berlin''])
   \<and> scrape_state logging_registry ''berlin'' [] = scrape_state logging_registry ''BERLIN '' []
   \<and> scrape_state logging_registry ''atlantis'' []
       = (Inl (Exn ValueError (unknown_state_message ''atlantis'')), [])"
proof -
  note t = scrape_state_lookup [of _ logging_registry "[]"]
  from t [of "''BERLIN ''"] logging_berlin(1,2)
  have a: "scrape_state logging_registry ''BERLIN '' [] = (Inr [], [] @ [''berlin''])"
    and b: "scrape_state logging_registry ''berlin'' [] = scrape_state logging_registry ''BERLIN '' []"
    by blast+
  from t [of "''atlantis''"] logging_keys logging_berlin(3)
  have c: "scrape_state logging_registry ''atlantis'' []
       = (Inl (Exn ValueError (unknown_state_message ''atlantis'')), [])"
    by blast
  from a b c show ?thesis by simp
qed

section \<open>The transport layer\<close>

lemma range_MAX_RETRIES: "[0..<MAX_RETRIES] = [0, 1, 2]"
  by (simp add: MAX_RETRIES_def upt_rec)

lemma fetch_cases:
  "fetch tr url st =
    (case request_outcome tr url (calls st) of
       Inr r \<Rightarrow> (Inr (Some r), st\<lparr>calls := calls st + 1\<rparr>)
     | Inl e0 \<Rightarrow>
         if \<not> is_RequestException e0 then (Inl e0, st\<lparr>calls := calls st + 1\<rparr>)
         else
           (case request_outcome tr url (calls st + 1) of
              Inr r \<Rightarrow>
                (Inr (Some r),
                 st\<lparr>calls := calls st + 2, slept := slept st @ [2],
                    printed := printed st @ [Retry 1 (take 80 url) (exn_msg e0)]\<rparr>)
            | Inl e1 \<Rightarrow>
                if \<not> is_RequestException e1 then
                  (Inl e1,
                   st\<lparr>calls := calls st + 2, slept := slept st @ [2],
                      printed := printed st @ [Retry 1 (take 80 url) (exn_msg e0)]\<rparr>)
                else
                  (case request_outcome tr url (calls st + 2) of
                     Inr r \<Rightarrow>
                       (Inr (Some r),
                        st\<lparr>calls := calls st + 3, slept := slept st @ [2, 4],
                           printed := printed st
                             @ [Retry 1 (take 80 url) (exn_msg e0),
                                Retry 2 (take 80 url) (exn_msg e1)]\<rparr>)
                   | Inl e2 \<Rightarrow>
                       (Inl e2,
                        st\<lparr>calls := calls st + 3, slept := slept st @ [2, 4],
                           printed := printed st
                             @ [Retry 1 (take 80 url) (exn_msg e0),
                                Retry 2 (take 80 url) (exn_msg e1)]\<rparr>))))"
  unfolding fetch_def range_MAX_RETRIES
  by (simp add: try_get_def MAX_RETRIES_def Let_def split: sum.splits)

lemma waits_upto:
  "map ((^) 2) [Suc 0..<2] = [2 :: nat]"
  "map ((^) 2) [Suc 0..<3] = [2, 4 :: nat]"
  by (simp_all add: upt_rec)

text \<open>
  Claim C5. \<open>fetch\<close> makes at least one and at most three requests. After the \<open>k\<close>-th
  request has failed (\<open>k\<close> = 1, 2) it sleeps \<open>2 ^ k\<close> before the next one, so the sleeps of a
  call are \<open>2 ^ 1, 2 ^ 2, \<dots>\<close>, one per request but the last. When the first two requests
  fail with a \<open>RequestException\<close>, the third request is made after the sleeps \<open>2 ^ 1\<close> and
  \<open>2 ^ 2\<close>: if it answers, \<open>fetch\<close> returns its response, and if it fails, \<open>fetch\<close> raises
  the exception of this last request.
\<close>

theorem fetch_retries_with_backoff:
  "calls st < calls (snd (fetch tr url st))
   \<and> calls (snd (fetch tr url st)) \<le> calls st + 3
   \<and> slept (snd (fetch tr url st))
       = slept st @ map (\<lambda>k. 2 ^ k) [1..<calls (snd (fetch tr url st)) - calls st]
   \<and> (retryable (request_outcome tr url (calls st))
        \<and> retryable (request_outcome tr url (calls st + 1)) \<longrightarrow>
        calls (snd (fetch tr url st)) = calls st + 3
        \<and> slept (snd (fetch tr url st)) = slept st @ [2 ^ 1, 2 ^ 2]
        \<and> (\<forall>r. request_outcome tr url (calls st + 2) = Inr r \<longrightarrow>
               fst (fetch tr url st) = Inr (Some r))
        \<and> (\<forall>e. request_outcome tr url (calls st + 2) = Inl e \<longrightarrow>
               fst (fetch tr url st) = Inl e))"
  unfolding fetch_cases retryable_def
  by (auto simp: waits_upto split: sum.splits)

lemma flaky_outcomes:
  "retryable (request_outcome flaky_transport ''https://gdi.berlin.de'' (calls net0))"
  "retryable (request_outcome flaky_transport ''https://gdi.berlin.de'' (calls net0 + 1))"
  "request_outcome flaky_transport ''https://gdi.berlin.de'' (calls net0 + 2) = Inr ok_response"
  by (simp_all add: retryable_def request_outcome_def flaky_transport_def net0_def
        is_RequestException_def raise_for_status_def ok_response_def)

lemma down_outcomes:
  "retryable (request_outcome down_transport ''https://gdi.berlin.de'' (calls net0))"
  "retryable (request_outcome down_transport ''https://gdi.berlin.de'' (calls net0 + 1))"
  "request_outcome down_transport ''https://gdi.berlin.de'' (calls net0 + 2)
     = Inl (Exn HTTPError ''500 Server Error'')"
  by (simp_all add: retryable_def request_outcome_def down_transport_def net0_def
        is_RequestException_def raise_for_status_def ok_response_def)

theorem fetch_retries_with_backoff_witness:
  "fst (fetch flaky_transport ''https://gdi.berlin.de'' net0) = Inr (Some ok_response)
   \<and> slept (snd (fetch flaky_transport ''https://gdi.berlin.de'' net0)) = [2, 4]
   \<and> calls (snd (fetch flaky_transport ''https://gdi.berlin.de'' net0)) = 3
   \<and> fst (fetch down_transport ''https://gdi.berlin.de'' net0)
       = Inl (Exn HTTPError ''500 Server Error'')
   \<and> calls (snd (fetch down_transport ''https://gdi.berlin.de'' net0)) = 3"
proof -
  have n: "calls net0 = 0" "slept net0 = []" by (simp_all add: net0_def)
  from fetch_retries_with_backoff [of net0 flaky_transport "''https://gdi.berlin.de''"]
    flaky_outcomes
  have a: "calls (snd (fetch flaky_transport ''https://gdi.berlin.de'' net0)) = calls net0 + 3"
    and b: "slept (snd (fetch flaky_transport ''https://gdi.berlin.de'' net0))
              = slept net0 @ [2 ^ 1, 2 ^ 2]"
    and c: "fst (fetch flaky_transport ''https://gdi.berlin.de'' net0) = Inr (Some ok_response)"
    by blast+
  from fetch_retries_with_backoff [of net0 down_transport "''https://gdi.berlin.de''"]
    down_outcomes
  have d: "calls (snd (fetch down_transport ''https://gdi.berlin.de'' net0)) = calls net0 + 3"
    and e: "fst (fetch down_transport ''https://gdi.berlin.de'' net0)
              = Inl (Exn HTTPError ''500 Server Error'')"
    by blast+
  from a b c d e show ?thesis unfolding n by simp
qed

end
